theory Spec2Isabelle
  imports Complex_Main
begin

section \<open>Errors\<close>

text \<open>
  Everything the TypeScript throws is a value here.  \<^verbatim>\<open>ServiceError\<close> (types/index.ts)
  extends \<^verbatim>\<open>Error\<close> with the failing service, an optional status code and the
  \<^verbatim>\<open>retryable\<close> hint; a plain \<^verbatim>\<open>new Error(msg)\<close> is \<open>Error msg\<close>.
\<close>

datatype service_name = svc_github | svc_jira | svc_slack | svc_openai

datatype error =
    Error string
  | ServiceError string service_name "nat option" bool

fun message :: "error \<Rightarrow> string" where
  "message (Error m) = m"
| "message (ServiceError m _ _ _) = m"

text \<open>\<^verbatim>\<open>s.includes(sub)\<close>: \<open>sub\<close> occurs in \<open>s\<close> as a contiguous run.\<close>

fun js_includes :: "string \<Rightarrow> string \<Rightarrow> bool" where
  "js_includes [] sub = (sub = [])"
| "js_includes (c # cs) sub = (take (length sub) (c # cs) = sub \<or> js_includes cs sub)"

section \<open>The language-model agent (agents/openai.ts)\<close>

subsection \<open>JavaScript numbers and JSON values\<close>

text \<open>
  A JavaScript number is NaN, an infinity or a finite value; the finite values are taken
  as reals.  \<^verbatim>\<open>Math.min\<close> and \<^verbatim>\<open>Math.max\<close> give NaN as soon as one argument is NaN.
\<close>

datatype js_number = NaN | NegInfinity | Finite real | Infinity

fun math_min :: "js_number \<Rightarrow> js_number \<Rightarrow> js_number" where
  "math_min NaN y = NaN"
| "math_min x NaN = NaN"
| "math_min NegInfinity y = NegInfinity"
| "math_min x NegInfinity = NegInfinity"
| "math_min Infinity y = y"
| "math_min x Infinity = x"
| "math_min (Finite x) (Finite y) = Finite (min x y)"

fun math_max :: "js_number \<Rightarrow> js_number \<Rightarrow> js_number" where
  "math_max NaN y = NaN"
| "math_max x NaN = NaN"
| "math_max Infinity y = Infinity"
| "math_max x Infinity = Infinity"
| "math_max NegInfinity y = y"
| "math_max x NegInfinity = x"
| "math_max (Finite x) (Finite y) = Finite (max x y)"

text \<open>
  What \<^verbatim>\<open>JSON.parse\<close> can return.  The source casts that value to an object with a
  string \<^verbatim>\<open>analysis\<close>, a number \<^verbatim>\<open>confidence\<close> and an array \<^verbatim>\<open>recommendations\<close>,
  and checks none of it.  An object is the map from its keys to their values.
\<close>

datatype json =
    JNull
  | JBool bool
  | JNumber js_number
  | JString string
  | JArray "json list"
  | JObject "string \<Rightarrow> json option"

text \<open>
  \<^verbatim>\<open>v.name\<close> for a parsed value \<open>v\<close> other than \<^verbatim>\<open>null\<close> and one of the names the
  source reads: the entry of an object, \<^verbatim>\<open>undefined\<close> (\<open>None\<close>) when the object has no
  such key or \<open>v\<close> is not an object.
\<close>

definition read_property :: "json \<Rightarrow> string \<Rightarrow> json option" where
  "read_property v name = (case v of JObject entries \<Rightarrow> entries name | _ \<Rightarrow> None)"

text \<open>
  The conversion \<^verbatim>\<open>Math.min\<close> applies to its argument: \<^verbatim>\<open>undefined\<close> becomes NaN,
  \<^verbatim>\<open>null\<close> 0, \<^verbatim>\<open>false\<close> 0, \<^verbatim>\<open>true\<close> 1, a number itself.  A parsed object
  has no callable method of its own, so it goes through the inherited \<^verbatim>\<open>toString\<close>,
  gives \<^verbatim>\<open>"[object Object]"\<close> and so NaN, unless a key \<^verbatim>\<open>toString\<close> of its own hides
  that method, in which case the conversion throws a TypeError.  How a string or an array
  converts is the language's number syntax: the parameter \<open>convert\<close>.
\<close>

definition ToNumber :: "(json \<Rightarrow> error + js_number) \<Rightarrow> json option \<Rightarrow> error + js_number" where
  "ToNumber convert v =
     (case v of
        None \<Rightarrow> Inr NaN
      | Some JNull \<Rightarrow> Inr (Finite 0)
      | Some (JBool b) \<Rightarrow> Inr (Finite (if b then 1 else 0))
      | Some (JNumber n) \<Rightarrow> Inr n
      | Some (JObject entries) \<Rightarrow>
          if entries ''toString'' = None then Inr NaN
          else Inl (Error ''Cannot convert object to primitive value'')
      | Some w \<Rightarrow> convert w)"

text \<open>
  The TypeError of a property read on \<^verbatim>\<open>undefined\<close> or \<^verbatim>\<open>null\<close>, with the message
  Node's engine gives it.
\<close>

definition cannot_read :: "string \<Rightarrow> string \<Rightarrow> error" where
  "cannot_read what name =
     Error (''Cannot read properties of '' @ what @ '' (reading '' @ [CHR 0x27] @ name
            @ [CHR 0x27] @ '')'')"

subsection \<open>analyzeContext\<close>

text \<open>
  The interface \<^verbatim>\<open>AnalysisResult\<close>.  The orchestrator reads it as typed: a string, a
  number, an array of strings.  What \<^verbatim>\<open>analyzeContext\<close> builds holds whatever the JSON
  held, so the types of \<^verbatim>\<open>analysis\<close> and \<^verbatim>\<open>recommendations\<close> are parameters.
\<close>

record ('t, 'l, 'sd) AnalysisResult =
  analysis :: 't
  confidence :: js_number
  recommendations :: 'l
  structuredData :: "'sd option"

text \<open>
  What \<^verbatim>\<open>client.chat.completions.create\<close> and the two steps after it can do: the
  client call rejects; the first choice has no content; \<^verbatim>\<open>JSON.parse\<close> throws (with
  its message); or the content parses.
\<close>

datatype llm_response =
    ClientRejects error
  | NoContent
  | Malformed string
  | Parsed json

text \<open>The \<^verbatim>\<open>catch\<close> of \<^verbatim>\<open>analyzeContext\<close> wraps whatever was thrown.\<close>

definition openai_failure :: "error \<Rightarrow> error" where
  "openai_failure e =
     ServiceError (''OpenAI analysis failed: '' @ message e) svc_openai None
       (js_includes (message e) ''rate limit'')"

text \<open>
  After the parse, the log entry reads \<^verbatim>\<open>parsedResult.confidence\<close>, which throws on
  \<^verbatim>\<open>null\<close>, and \<^verbatim>\<open>parsedResult.recommendations.length\<close>, which throws when there are
  no recommendations; then the result is built, its confidence being
  \<^verbatim>\<open>Math.max(0, Math.min(100, parsedResult.confidence))\<close>.  All of it is inside the
  \<^verbatim>\<open>try\<close>.
\<close>

definition analyzeContext ::
  "(json \<Rightarrow> error + js_number) \<Rightarrow> llm_response
     \<Rightarrow> error + (json option, json, json) AnalysisResult" where
  "analyzeContext convert response =
     (case response of
        ClientRejects e \<Rightarrow> Inl (openai_failure e)
      | NoContent \<Rightarrow> Inl (openai_failure (Error ''No response content from OpenAI''))
      | Malformed m \<Rightarrow> Inl (openai_failure (Error m))
      | Parsed parsedResult \<Rightarrow>
          if parsedResult = JNull
          then Inl (openai_failure (cannot_read ''null'' ''confidence''))
          else
            (case read_property parsedResult ''recommendations'' of
               None \<Rightarrow> Inl (openai_failure (cannot_read ''undefined'' ''length''))
             | Some JNull \<Rightarrow> Inl (openai_failure (cannot_read ''null'' ''length''))
             | Some recs \<Rightarrow>
                 (case ToNumber convert (read_property parsedResult ''confidence'') of
                    Inl e \<Rightarrow> Inl (openai_failure e)
                  | Inr c \<Rightarrow>
                      Inr \<lparr> analysis = read_property parsedResult ''analysis'',
                            confidence = math_max (Finite 0) (math_min (Finite 100) c),
                            recommendations = recs,
                            structuredData = read_property parsedResult ''structured_data'' \<rparr>)))"

text \<open>
  \<^verbatim>\<open>analyzePullRequest\<close>, \<^verbatim>\<open>triageIssue\<close>, \<^verbatim>\<open>assessReleaseReadiness\<close> and
  \<^verbatim>\<open>generateTeamInsights\<close> all end in
  \<^verbatim>\<open>const result = await this.analyzeContext(prompt); ... return { ...result, structuredData }\<close>
  where the new \<^verbatim>\<open>structuredData\<close> is extracted from \<^verbatim>\<open>result.analysis\<close> and the
  method's own argument.  The extraction is the parameter \<open>extract\<close>; it may throw (it
  does when the analysis is not a string), and that error leaves the method as it is.
  The spread keeps every other field of \<open>result\<close>.
\<close>

definition withStructuredData ::
  "('t \<Rightarrow> error + 'b) \<Rightarrow> ('t, 'l, 'a) AnalysisResult \<Rightarrow> error + ('t, 'l, 'b) AnalysisResult" where
  "withStructuredData extract result =
     (case extract (analysis result) of
        Inl e \<Rightarrow> Inl e
      | Inr extracted \<Rightarrow>
          Inr \<lparr> analysis = analysis result,
                confidence = confidence result,
                recommendations = recommendations result,
                structuredData = Some extracted \<rparr>)"

definition analyzePullRequest ::
  "(json \<Rightarrow> error + js_number) \<Rightarrow> (json option \<Rightarrow> error + 'b) \<Rightarrow> llm_response
     \<Rightarrow> error + (json option, json, 'b) AnalysisResult" where
  "analyzePullRequest convert extract response =
     (case analyzeContext convert response of
        Inl e \<Rightarrow> Inl e
      | Inr result \<Rightarrow> withStructuredData extract result)"

definition triageIssue ::
  "(json \<Rightarrow> error + js_number) \<Rightarrow> (json option \<Rightarrow> error + 'b) \<Rightarrow> llm_response
     \<Rightarrow> error + (json option, json, 'b) AnalysisResult" where
  "triageIssue convert extract response =
     (case analyzeContext convert response of
        Inl e \<Rightarrow> Inl e
      | Inr result \<Rightarrow> withStructuredData extract result)"

definition assessReleaseReadiness ::
  "(json \<Rightarrow> error + js_number) \<Rightarrow> (json option \<Rightarrow> error + 'b) \<Rightarrow> llm_response
     \<Rightarrow> error + (json option, json, 'b) AnalysisResult" where
  "assessReleaseReadiness convert extract response =
     (case analyzeContext convert response of
        Inl e \<Rightarrow> Inl e
      | Inr result \<Rightarrow> withStructuredData extract result)"

definition generateTeamInsights ::
  "(json \<Rightarrow> error + js_number) \<Rightarrow> (json option \<Rightarrow> error + 'b) \<Rightarrow> llm_response
     \<Rightarrow> error + (json option, json, 'b) AnalysisResult" where
  "generateTeamInsights convert extract response =
     (case analyzeContext convert response of
        Inl e \<Rightarrow> Inl e
      | Inr result \<Rightarrow> withStructuredData extract result)"

subsection \<open>calculateVelocityTrend\<close>

text \<open>
  The averages are JavaScript numbers: \<^verbatim>\<open>[].reduce((a, b) => a + b, 0) / 0\<close> is
  \<^verbatim>\<open>0 / 0\<close>, that is NaN, and every comparison with NaN is false.  A number is
  \<open>Some x\<close>, NaN is \<open>None\<close>.  The arithmetic itself is that of the reals.
\<close>

record velocity =
  current :: real
  historical :: "real list"

definition average :: "real list \<Rightarrow> real option" where
  "average xs = (if xs = [] then None else Some (foldl (+) 0 xs / real (length xs)))"

definition times :: "real option \<Rightarrow> real \<Rightarrow> real option" where
  "times a k = (case a of None \<Rightarrow> None | Some x \<Rightarrow> Some (x * k))"

definition greater :: "real option \<Rightarrow> real option \<Rightarrow> bool" where
  "greater a b = (case a of None \<Rightarrow> False
                  | Some x \<Rightarrow> (case b of None \<Rightarrow> False | Some y \<Rightarrow> y < x))"

definition calculateVelocityTrend :: "velocity \<Rightarrow> string" where
  "calculateVelocityTrend v =
     (if length (historical v) < 2 then ''stable''
      else
        let recent = drop (length (historical v) - 3) (historical v);
            earlier = take (length (historical v) - 3) (historical v);
            recentAvg = average recent;
            earlierAvg = average earlier
        in if greater recentAvg (times earlierAvg 1.1) then ''increasing''
           else if greater (times earlierAvg 0.9) recentAvg then ''decreasing''
           else ''stable'')"

section \<open>The release recommendation (workflows/orchestrator.ts)\<close>

text \<open>
  The score is a JavaScript number, here a \<open>real\<close>: the function only compares it.
  (NaN, which no real stands for, fails both comparisons and gives \<^verbatim>\<open>block\<close>.)
\<close>

datatype recommendation = proceed | caution | block

definition determineReleaseRecommendation :: "real \<Rightarrow> recommendation" where
  "determineReleaseRecommendation readinessScore =
     (if readinessScore \<ge> 85 then proceed
      else if readinessScore \<ge> 70 then caution
      else block)"

section \<open>The workflow orchestrator (workflows/orchestrator.ts)\<close>

text \<open>
  The class \<^verbatim>\<open>WorkflowOrchestrator\<close> owns the map \<^verbatim>\<open>workflowState\<close> and calls four
  collaborators.  An operation is a function from the orchestrator's state to its outcome
  and the new state; the outcome is \<open>Inr\<close> of the value returned or \<open>Inl\<close> of the
  error thrown.  The state carries, beside the map, the trace of adapter calls and store
  writes, so that what an operation did can be stated.  Logging is left out, and so is
  \<^verbatim>\<open>getTeamInsights\<close>, which reads no workflow record and writes none.
\<close>

subsection \<open>JavaScript values\<close>

text \<open>
  \<^verbatim>\<open>x || d\<close> takes \<open>d\<close> when \<open>x\<close> is falsy: \<^verbatim>\<open>undefined\<close> (\<open>None\<close>), the empty
  string, the number 0.  An array, even an empty one, is truthy.
\<close>

definition truthy :: "string option \<Rightarrow> bool" where
  "truthy x = (case x of None \<Rightarrow> False | Some v \<Rightarrow> v \<noteq> [])"

definition or_string :: "string option \<Rightarrow> string \<Rightarrow> string" where
  "or_string x d = (case x of None \<Rightarrow> d | Some v \<Rightarrow> if v = [] then d else v)"

definition or_number :: "real option \<Rightarrow> real \<Rightarrow> real" where
  "or_number x d = (case x of None \<Rightarrow> d | Some v \<Rightarrow> if v = 0 then d else v)"

definition or_array :: "'a list option \<Rightarrow> 'a list \<Rightarrow> 'a list" where
  "or_array x d = (case x of None \<Rightarrow> d | Some v \<Rightarrow> v)"

text \<open>\<^verbatim>\<open>s.split(c)\<close>: the pieces between the occurrences of \<open>c\<close>; never an empty array.\<close>

fun split_on :: "char \<Rightarrow> string \<Rightarrow> string list" where
  "split_on c [] = [[]]"
| "split_on c (x # xs) =
     (if x = c then [] # split_on c xs
      else (case split_on c xs of
              [] \<Rightarrow> [[x]]
            | w # ws \<Rightarrow> (x # w) # ws))"

text \<open>\<^verbatim>\<open>parts[i]\<close> and \<^verbatim>\<open>parts[parts.length - k]\<close>: \<^verbatim>\<open>undefined\<close> out of range.\<close>

definition item :: "'a list \<Rightarrow> nat \<Rightarrow> 'a option" where
  "item xs i = (if i < length xs then Some (xs ! i) else None)"

definition from_end :: "'a list \<Rightarrow> nat \<Rightarrow> 'a option" where
  "from_end xs k = (if k \<le> length xs \<and> 0 < k then Some (xs ! (length xs - k)) else None)"

text \<open>A pull-request number in a template literal: its decimal digits.\<close>

fun show_nat :: "nat \<Rightarrow> string" where
  "show_nat n =
     (if n < 10 then [''0123456789'' ! n]
      else show_nat (n div 10) @ [''0123456789'' ! (n mod 10)])"

declare show_nat.simps [simp del]

subsection \<open>The workflow record and the adapters' data\<close>

datatype platform = GitHub | Jira | Slack

datatype workflow_type = pr | issue | release

text \<open>
  An entry of \<^verbatim>\<open>services\<close> is an object with string properties (\<^verbatim>\<open>status\<close>,
  \<^verbatim>\<open>url\<close>, \<^verbatim>\<open>key\<close>, \<^verbatim>\<open>channel\<close>, \<^verbatim>\<open>messageId\<close>): a map from property name to
  value, so that an object spread is a map override.
\<close>

type_synonym service_pointer = "string \<rightharpoonup> string"

record WorkflowStatus =
  wf_id :: string
  wf_type :: workflow_type
  wf_status :: string
  lastUpdated :: nat
  services :: "platform \<rightharpoonup> service_pointer"

record PRDetails =
  title :: string
  body :: string
  files :: "string list"
  commits :: "string list"
  reviews :: "string list"

record JiraIssue =
  key :: string
  issue_summary :: string
  description :: string
  labels :: "string list"
  comments :: "string list"
  reporter :: string
  components :: "string list"
  sprint :: "string option"
  issue_priority :: string

type_synonym blocker = "string \<times> string \<times> string"

record pr_structured =
  sd_suggestedReviewers :: "string list option"
  sd_riskLevel :: "string option"
  sd_estimatedReviewTime :: "real option"
  sd_topics :: "string list option"

record triage_structured =
  sd_priority :: "string option"
  sd_category :: "string option"
  sd_estimatedEffort :: "real option"
  sd_suggestedAssignee :: "string option"
  sd_dependencies :: "string list option"
  sd_tags :: "string list option"

record release_structured =
  sd_readinessScore :: "real option"
  sd_blockers :: "blocker list option"

text \<open>\<^verbatim>\<open>aiAnalysis.structuredData?.field\<close>.\<close>

definition sd_field :: "('t, 'l, 'sd) AnalysisResult \<Rightarrow> ('sd \<Rightarrow> 'a option) \<Rightarrow> 'a option" where
  "sd_field aiAnalysis f = (case structuredData aiAnalysis of None \<Rightarrow> None | Some d \<Rightarrow> f d)"

record PRAnalysisResult =
  summary :: string
  suggestedReviewers :: "string list"
  riskLevel :: string
  estimatedReviewTime :: real
  topics :: "string list"
  relatedJiraTickets :: "string list"

record IssueTriageResult =
  priority :: string
  category :: string
  estimatedEffort :: real
  suggestedAssignee :: "string option"
  suggestedSprint :: "string option"
  dependencies :: "string list"
  tags :: "string list"

record ReleaseAnalysis =
  readiness :: real
  blockers :: "blocker list"
  testCoverage :: real
  openIssues :: int
  recommendation :: recommendation
  suggestedActions :: "string list"

record PRAnalysisParams =
  owner :: string
  repo :: string
  pull_number :: nat
  include_jira_context :: "bool option"

record SmartTriageParams =
  issue_key :: string
  github_issue_url :: "string option"
  team_context :: "string option"

record ReleaseOrchestrationParams =
  release_version :: string
  repository :: string
  jira_project :: string
  slack_channel :: string
  dry_run :: "bool option"

record WorkflowStatusParams =
  workflow_id :: string
  status_update :: string
  platforms :: "platform list option"

subsection \<open>Adapter calls and the trace\<close>

text \<open>
  The texts the orchestrator sends out are template literals; each is kept as the values
  interpolated into it.  \<open>SimilarTo text\<close> is the query
  \<^verbatim>\<open>text ~ "<k1 OR k2 OR k3>" ORDER BY created DESC\<close> built from the keywords of
  \<open>text\<close>, \<open>Blocking project\<close> the query for the open issues of highest priority of
  the project.  \<open>TriageComment analysis priority effort\<close> is the audit comment of
  \<^verbatim>\<open>smartTriage\<close>, \<open>StatusComment update\<close> the comment of a status sync.
  \<open>ReleaseReport version result\<close> is the notification of \<^verbatim>\<open>orchestrateRelease\<close>
  (title, message, colour and fields are all functions of the two), and
  \<open>StatusNotification type id update\<close> that of a status sync.
\<close>

datatype jql = SimilarTo string | Blocking string

datatype comment = TriageComment string string real | StatusComment string

datatype notification =
    ReleaseReport string ReleaseAnalysis
  | StatusNotification workflow_type string string

record release_options =
  tag_name :: string
  release_readiness :: real
  release_actions :: "string list"
  draft :: bool

text \<open>
  One constructor for each adapter method the orchestrator calls, with the arguments of
  the call.  \<open>GetIssueDetails\<close> and \<open>UpdatePRStatus\<close> carry the number as the string
  handed to \<^verbatim>\<open>parseInt\<close>; nothing in the orchestrator looks at the parsed value.
\<close>

datatype call =
    GetPRDetails string string nat
  | GetRepositoryStats string string
  | GetIssueDetails string string string
  | UpdatePRStatus string string string string string
  | CreateRelease string string release_options
  | GetIssue string
  | SearchIssues jql nat
  | AddCommentToIssue string comment
  | GetProjectIssueStats string
  | FindChannelByName string
  | SendNotification string notification
  | AnalyzePullRequest PRDetails "string list"
  | TriageIssue JiraIssue "string option" "(string \<times> string) list"
  | AssessReleaseReadiness string "(string \<times> string \<times> string) list"

text \<open>
  What happens, in order: an adapter method is called, or a record is written to the
  state store (\<^verbatim>\<open>this.workflowState.set(id, record)\<close>).
\<close>

datatype event = Call call | Set string WorkflowStatus

text \<open>
  The adapters are outside the orchestrator.  Each method answers with a value or
  rejects with an error, and its answer may depend on everything that happened before:
  it is a function of the trace up to and including its own call.
\<close>

record GitHubIntegration =
  getPRDetails :: "event list \<Rightarrow> error + PRDetails"
  getRepositoryStats :: "event list \<Rightarrow> error + string list"
  getIssueDetails :: "event list \<Rightarrow> error + string"
  updatePRStatus :: "event list \<Rightarrow> error + unit"
  createRelease :: "event list \<Rightarrow> error + unit"

record JiraIntegration =
  getIssue :: "event list \<Rightarrow> error + JiraIssue"
  searchIssues :: "event list \<Rightarrow> error + JiraIssue list"
  addCommentToIssue :: "event list \<Rightarrow> error + unit"
  getProjectIssueStats :: "event list \<Rightarrow> error + int"

record SlackIntegration =
  findChannelByName :: "event list \<Rightarrow> error + string option"
  sendNotification :: "event list \<Rightarrow> error + unit"

record OpenAIAgent =
  ai_analyzePullRequest :: "event list \<Rightarrow> error + (string, string list, pr_structured) AnalysisResult"
  ai_triageIssue :: "event list \<Rightarrow> error + (string, string list, triage_structured) AnalysisResult"
  ai_assessReleaseReadiness :: "event list \<Rightarrow> error + (string, string list, release_structured) AnalysisResult"

text \<open>
  Beside the four collaborators, the surroundings give the clock (\<^verbatim>\<open>new Date()\<close>)
  and the order in which the three reads of a \<^verbatim>\<open>Promise.all\<close> settle.
\<close>

record WorkflowDependencies =
  github :: GitHubIntegration
  jira :: JiraIntegration
  slack :: SlackIntegration
  ai :: OpenAIAgent
  now :: "event list \<Rightarrow> nat"
  settled :: "event list \<Rightarrow> nat list"

record orchestrator =
  workflowState :: "string \<rightharpoonup> WorkflowStatus"
  trace :: "event list"

definition invoke :: "call \<Rightarrow> orchestrator \<Rightarrow> orchestrator" where
  "invoke c s = s\<lparr> trace := trace s @ [Call c] \<rparr>"

definition updateWorkflowStatus :: "string \<Rightarrow> WorkflowStatus \<Rightarrow> orchestrator \<Rightarrow> orchestrator" where
  "updateWorkflowStatus workflowId st s =
     s\<lparr> workflowState := (workflowState s)(workflowId \<mapsto> st),
        trace := trace s @ [Set workflowId st] \<rparr>"

subsection \<open>Private helpers\<close>

text \<open>
  \<^verbatim>\<open>extractJiraContext\<close> scans \<^verbatim>\<open>title + ' ' + body\<close> with \<^verbatim>\<open>/([A-Z]+-\d+)/g\<close>.
  At a position the pattern matches exactly when the longest run of capitals there is
  not empty and is followed by a hyphen and a digit; the match then takes all the digits
  that follow.  \<open>scan_keys k\<close> skips the \<open>k\<close> characters left of the match just found.
\<close>

definition is_capital :: "char \<Rightarrow> bool" where
  "is_capital c = (c \<in> set ''ABCDEFGHIJKLMNOPQRSTUVWXYZ'')"

definition is_digit :: "char \<Rightarrow> bool" where
  "is_digit c = (c \<in> set ''0123456789'')"

definition match_key :: "string \<Rightarrow> string option" where
  "match_key cs =
     (let letters = takeWhile is_capital cs
      in if letters = [] then None
         else (case dropWhile is_capital cs of
                 [] \<Rightarrow> None
               | d # rest \<Rightarrow>
                   if d = CHR ''-'' \<and> takeWhile is_digit rest \<noteq> []
                   then Some (letters @ ''-'' @ takeWhile is_digit rest)
                   else None))"

fun scan_keys :: "nat \<Rightarrow> string \<Rightarrow> string list" where
  "scan_keys k [] = []"
| "scan_keys (Suc k) (c # cs) = scan_keys k cs"
| "scan_keys 0 (c # cs) =
     (case match_key (c # cs) of
        None \<Rightarrow> scan_keys 0 cs
      | Some m \<Rightarrow> m # scan_keys (length m - 1) cs)"

text \<open>\<^verbatim>\<open>[...new Set(xs)]\<close>: the first occurrence of each element, in order.\<close>

definition dedupe :: "'a list \<Rightarrow> 'a list" where
  "dedupe xs = rev (remdups (rev xs))"

definition extractJiraContext :: "string \<Rightarrow> string \<Rightarrow> string list option" where
  "extractJiraContext ttl bdy =
     (let tickets = dedupe (scan_keys 0 (ttl @ '' '' @ bdy))
      in if length tickets > 0 then Some tickets else None)"

text \<open>
  The helpers below wrap one adapter call in \<^verbatim>\<open>try { ... } catch { return fallback }\<close>:
  they never throw.
\<close>

definition getTeamMembers ::
  "WorkflowDependencies \<Rightarrow> string \<Rightarrow> string \<Rightarrow> orchestrator \<Rightarrow> string list \<times> orchestrator" where
  "getTeamMembers deps ownr rpo s =
     (let s1 = invoke (GetRepositoryStats ownr rpo) s
      in case getRepositoryStats (github deps) (trace s1) of
           Inl e \<Rightarrow> ([], s1)
         | Inr contributors \<Rightarrow> (contributors, s1))"

definition extractGitHubIssueContext ::
  "WorkflowDependencies \<Rightarrow> string \<Rightarrow> orchestrator \<Rightarrow> string option \<times> orchestrator" where
  "extractGitHubIssueContext deps url s =
     (let urlParts = split_on CHR ''/'' url;
          ownr = from_end urlParts 4;
          rpo = from_end urlParts 3;
          issueNumberStr = from_end urlParts 1
      in if \<not> truthy issueNumberStr then (None, s)
         else if \<not> truthy ownr \<or> \<not> truthy rpo then (None, s)
         else
           let s1 = invoke (GetIssueDetails (the ownr) (the rpo) (the issueNumberStr)) s
           in case getIssueDetails (github deps) (trace s1) of
                Inl e \<Rightarrow> (None, s1)
              | Inr details \<Rightarrow> (Some details, s1))"

definition findSimilarIssues ::
  "WorkflowDependencies \<Rightarrow> string \<Rightarrow> string \<Rightarrow> orchestrator
     \<Rightarrow> (string \<times> string) list \<times> orchestrator" where
  "findSimilarIssues deps ttl descr s =
     (let s1 = invoke (SearchIssues (SimilarTo (ttl @ '' '' @ descr)) 5) s
      in case searchIssues (jira deps) (trace s1) of
           Inl e \<Rightarrow> ([], s1)
         | Inr issues \<Rightarrow> (map (\<lambda>i. (key i, issue_summary i)) issues, s1))"

definition getSuggestedSprint ::
  "WorkflowDependencies \<Rightarrow> string \<Rightarrow> orchestrator \<Rightarrow> string option \<times> orchestrator" where
  "getSuggestedSprint deps issueKey s =
     (let s1 = invoke (GetIssue issueKey) s
      in case getIssue (jira deps) (trace s1) of
           Inl e \<Rightarrow> (None, s1)
         | Inr i \<Rightarrow> (Some (or_string (sprint i) ''Next Sprint''), s1))"

definition getBlockingIssues ::
  "WorkflowDependencies \<Rightarrow> string \<Rightarrow> orchestrator
     \<Rightarrow> (string \<times> string \<times> string) list \<times> orchestrator" where
  "getBlockingIssues deps projectKey s =
     (let s1 = invoke (SearchIssues (Blocking projectKey) 10) s
      in case searchIssues (jira deps) (trace s1) of
           Inl e \<Rightarrow> ([], s1)
         | Inr issues \<Rightarrow> (map (\<lambda>i. (key i, issue_priority i, issue_summary i)) issues, s1))"

text \<open>\<^verbatim>\<open>getTestResults\<close> is a stub: its coverage is always 0.\<close>

definition getTestResults_coverage :: real where
  "getTestResults_coverage = 0"

subsection \<open>analyzePR\<close>

definition pr_workflowId :: "PRAnalysisParams \<Rightarrow> string" where
  "pr_workflowId params =
     ''pr-'' @ owner params @ ''-'' @ repo params @ ''-'' @ show_nat (pull_number params)"

definition pr_url :: "PRAnalysisParams \<Rightarrow> string" where
  "pr_url params =
     ''https://github.com/'' @ owner params @ ''/'' @ repo params
       @ ''/pull/'' @ show_nat (pull_number params)"

text \<open>The body of the \<^verbatim>\<open>try\<close>; \<open>Inl e\<close> is an exception on its way to the \<^verbatim>\<open>catch\<close>.\<close>

definition analyzePR_try ::
  "WorkflowDependencies \<Rightarrow> PRAnalysisParams \<Rightarrow> orchestrator
     \<Rightarrow> (error + PRAnalysisResult) \<times> orchestrator" where
  "analyzePR_try deps params s =
     (let workflowId = pr_workflowId params;
          s1 = updateWorkflowStatus workflowId
                 \<lparr> wf_id = workflowId, wf_type = pr, wf_status = ''analyzing'',
                   lastUpdated = now deps (trace s), services = Map.empty \<rparr> s;
          s2 = invoke (GetPRDetails (owner params) (repo params) (pull_number params)) s1
      in case getPRDetails (github deps) (trace s2) of
           Inl e \<Rightarrow> (Inl e, s2)
         | Inr prDetails \<Rightarrow>
             let jiraContext =
                   (if include_jira_context params = Some True
                    then extractJiraContext (title prDetails) (body prDetails) else None);
                 (teamMembers, s3) = getTeamMembers deps (owner params) (repo params) s2;
                 s4 = invoke (AnalyzePullRequest prDetails teamMembers) s3
             in case ai_analyzePullRequest (ai deps) (trace s4) of
                  Inl e \<Rightarrow> (Inl e, s4)
                | Inr aiAnalysis \<Rightarrow>
                    let result =
                          \<lparr> summary = analysis aiAnalysis,
                            suggestedReviewers =
                              or_array (sd_field aiAnalysis sd_suggestedReviewers) [],
                            riskLevel = or_string (sd_field aiAnalysis sd_riskLevel) ''medium'',
                            estimatedReviewTime =
                              or_number (sd_field aiAnalysis sd_estimatedReviewTime) 2,
                            topics = or_array (sd_field aiAnalysis sd_topics) [],
                            relatedJiraTickets = or_array jiraContext [] \<rparr>;
                        s5 = updateWorkflowStatus workflowId
                               \<lparr> wf_id = workflowId, wf_type = pr, wf_status = ''completed'',
                                 lastUpdated = now deps (trace s4),
                                 services =
                                   [GitHub \<mapsto> [''status'' \<mapsto> ''analyzed'',
                                               ''url'' \<mapsto> pr_url params]] \<rparr> s4
                    in (Inr result, s5))"

definition analyzePR ::
  "WorkflowDependencies \<Rightarrow> PRAnalysisParams \<Rightarrow> orchestrator
     \<Rightarrow> (error + PRAnalysisResult) \<times> orchestrator" where
  "analyzePR deps params s =
     (case analyzePR_try deps params s of
        (Inr result, s') \<Rightarrow> (Inr result, s')
      | (Inl e, s') \<Rightarrow>
          (Inl e,
           updateWorkflowStatus (pr_workflowId params)
             \<lparr> wf_id = pr_workflowId params, wf_type = pr, wf_status = ''failed'',
               lastUpdated = now deps (trace s'), services = Map.empty \<rparr> s'))"

subsection \<open>smartTriage\<close>

definition triage_workflowId :: "SmartTriageParams \<Rightarrow> string" where
  "triage_workflowId params = ''triage-'' @ issue_key params"

definition smartTriage_try ::
  "WorkflowDependencies \<Rightarrow> SmartTriageParams \<Rightarrow> orchestrator
     \<Rightarrow> (error + IssueTriageResult) \<times> orchestrator" where
  "smartTriage_try deps params s =
     (let workflowId = triage_workflowId params;
          s1 = updateWorkflowStatus workflowId
                 \<lparr> wf_id = workflowId, wf_type = issue, wf_status = ''triaging'',
                   lastUpdated = now deps (trace s), services = Map.empty \<rparr> s;
          s2 = invoke (GetIssue (issue_key params)) s1
      in case getIssue (jira deps) (trace s2) of
           Inl e \<Rightarrow> (Inl e, s2)
         | Inr jiraIssue \<Rightarrow>
             let (githubContext, s3) =
                   (if truthy (github_issue_url params)
                    then extractGitHubIssueContext deps (the (github_issue_url params)) s2
                    else (None, s2));
                 (similarIssues, s4) =
                   findSimilarIssues deps (issue_summary jiraIssue) (description jiraIssue) s3;
                 s5 = invoke (TriageIssue jiraIssue (item (components jiraIssue) 0)
                                similarIssues) s4
             in case ai_triageIssue (ai deps) (trace s5) of
                  Inl e \<Rightarrow> (Inl e, s5)
                | Inr aiAnalysis \<Rightarrow>
                    let (sprnt, s6) = getSuggestedSprint deps (issue_key params) s5;
                        result =
                          \<lparr> priority = or_string (sd_field aiAnalysis sd_priority) ''medium'',
                            category = or_string (sd_field aiAnalysis sd_category) ''story'',
                            estimatedEffort =
                              or_number (sd_field aiAnalysis sd_estimatedEffort) 3,
                            suggestedAssignee = sd_field aiAnalysis sd_suggestedAssignee,
                            suggestedSprint = sprnt,
                            dependencies = or_array (sd_field aiAnalysis sd_dependencies) [],
                            tags = or_array (sd_field aiAnalysis sd_tags) [] \<rparr>;
                        s7 = invoke (AddCommentToIssue (issue_key params)
                               (TriageComment (analysis aiAnalysis) (priority result)
                                  (estimatedEffort result))) s6
                    in case addCommentToIssue (jira deps) (trace s7) of
                         Inl e \<Rightarrow> (Inl e, s7)
                       | Inr u \<Rightarrow>
                           (Inr result,
                            updateWorkflowStatus workflowId
                              \<lparr> wf_id = workflowId, wf_type = issue, wf_status = ''completed'',
                                lastUpdated = now deps (trace s7),
                                services =
                                  [Jira \<mapsto> [''status'' \<mapsto> ''triaged'',
                                            ''key'' \<mapsto> issue_key params]] \<rparr> s7))"

definition smartTriage ::
  "WorkflowDependencies \<Rightarrow> SmartTriageParams \<Rightarrow> orchestrator
     \<Rightarrow> (error + IssueTriageResult) \<times> orchestrator" where
  "smartTriage deps params s =
     (case smartTriage_try deps params s of
        (Inr result, s') \<Rightarrow> (Inr result, s')
      | (Inl e, s') \<Rightarrow>
          (Inl e,
           updateWorkflowStatus (triage_workflowId params)
             \<lparr> wf_id = triage_workflowId params, wf_type = issue, wf_status = ''failed'',
               lastUpdated = now deps (trace s'), services = Map.empty \<rparr> s'))"

subsection \<open>orchestrateRelease\<close>

text \<open>
  \<^verbatim>\<open>await Promise.all([a, b, c])\<close>: the three calls have been made; the result is the
  three values, or the rejection of whichever promise rejected first.  \<open>order\<close> lists
  the positions (0, 1, 2) in the order in which the promises settle; a position it leaves
  out settles after those it names, in array order.
\<close>

fun first_rejection :: "nat list \<Rightarrow> (nat \<Rightarrow> error option) \<Rightarrow> error option" where
  "first_rejection [] rejected = None"
| "first_rejection (i # is) rejected =
     (case rejected i of Some e \<Rightarrow> Some e | None \<Rightarrow> first_rejection is rejected)"

definition rejection :: "error + 'a \<Rightarrow> error option" where
  "rejection r = (case r of Inl e \<Rightarrow> Some e | Inr v \<Rightarrow> None)"

definition promise_all3 ::
  "nat list \<Rightarrow> error + 'a \<Rightarrow> error + 'b \<Rightarrow> error + 'c \<Rightarrow> error + 'a \<times> 'b \<times> 'c" where
  "promise_all3 order a b c =
     (case first_rejection (order @ [0, 1, 2])
             (\<lambda>i. if i = 0 then rejection a else if i = 1 then rejection b
                  else if i = 2 then rejection c else None) of
        Some e \<Rightarrow> Inl e
      | None \<Rightarrow>
          (case a of Inl e \<Rightarrow> Inl e
           | Inr x \<Rightarrow> (case b of Inl e \<Rightarrow> Inl e
                | Inr y \<Rightarrow> (case c of Inl e \<Rightarrow> Inl e | Inr z \<Rightarrow> Inr (x, y, z)))))"

definition invalid_repository :: error where
  "invalid_repository =
     Error (''Invalid repository format. Expected '' @ [CHR 0x22] @ ''owner/repo'' @ [CHR 0x22])"

definition release_workflowId :: "ReleaseOrchestrationParams \<Rightarrow> string" where
  "release_workflowId params = ''release-'' @ release_version params"

definition executeRelease ::
  "WorkflowDependencies \<Rightarrow> ReleaseOrchestrationParams \<Rightarrow> ReleaseAnalysis \<Rightarrow> orchestrator
     \<Rightarrow> (error + unit) \<times> orchestrator" where
  "executeRelease deps params result s =
     (let repoParts = split_on CHR ''/'' (repository params);
          ownr = item repoParts 0;
          rpo = item repoParts 1
      in if \<not> truthy ownr \<or> \<not> truthy rpo then (Inl invalid_repository, s)
         else
           let s1 = invoke (CreateRelease (the ownr) (the rpo)
                      \<lparr> tag_name = release_version params,
                        release_readiness = readiness result,
                        release_actions = suggestedActions result,
                        draft = (recommendation result \<noteq> proceed) \<rparr>) s
           in (createRelease (github deps) (trace s1), s1))"

text \<open>What follows the check \<^verbatim>\<open>if (!slackChannel) throw ...\<close>, inside the \<^verbatim>\<open>try\<close>.\<close>

definition assessAndNotify ::
  "WorkflowDependencies \<Rightarrow> ReleaseOrchestrationParams \<Rightarrow> int \<Rightarrow> string \<Rightarrow> orchestrator
     \<Rightarrow> (error + ReleaseAnalysis) \<times> orchestrator" where
  "assessAndNotify deps params totalIssues channel s =
     (let (blocking, s1) = getBlockingIssues deps (jira_project params) s;
          s2 = invoke (AssessReleaseReadiness (release_version params) blocking) s1
      in case ai_assessReleaseReadiness (ai deps) (trace s2) of
           Inl e \<Rightarrow> (Inl e, s2)
         | Inr aiAnalysis \<Rightarrow>
             let result =
                   \<lparr> readiness = or_number (sd_field aiAnalysis sd_readinessScore) 70,
                     blockers = or_array (sd_field aiAnalysis sd_blockers) [],
                     testCoverage = or_number (Some getTestResults_coverage) 0,
                     openIssues = totalIssues,
                     recommendation =
                       determineReleaseRecommendation
                         (or_number (sd_field aiAnalysis sd_readinessScore) 70),
                     suggestedActions = recommendations aiAnalysis \<rparr>;
                 (released, s3) =
                   (if dry_run params \<noteq> Some True \<and> recommendation result = proceed
                    then executeRelease deps params result s2
                    else (Inr (), s2))
             in case released of
                  Inl e \<Rightarrow> (Inl e, s3)
                | Inr u \<Rightarrow>
                    let s4 = invoke (SendNotification channel
                               (ReleaseReport (release_version params) result)) s3
                    in case sendNotification (slack deps) (trace s4) of
                         Inl e \<Rightarrow> (Inl e, s4)
                       | Inr v \<Rightarrow>
                           (Inr result,
                            updateWorkflowStatus (release_workflowId params)
                              \<lparr> wf_id = release_workflowId params, wf_type = release,
                                wf_status = ''completed'', lastUpdated = now deps (trace s4),
                                services =
                                  [GitHub \<mapsto> [''status'' \<mapsto> ''analyzed'',
                                      ''url'' \<mapsto> ''https://github.com/'' @ repository params],
                                   Jira \<mapsto> [''status'' \<mapsto> ''analyzed'',
                                      ''key'' \<mapsto> jira_project params],
                                   Slack \<mapsto> [''channel'' \<mapsto> channel,
                                      ''messageId'' \<mapsto> ''notification-sent'']] \<rparr> s4))"

definition orchestrateRelease_try ::
  "WorkflowDependencies \<Rightarrow> ReleaseOrchestrationParams \<Rightarrow> string \<Rightarrow> string \<Rightarrow> orchestrator
     \<Rightarrow> (error + ReleaseAnalysis) \<times> orchestrator" where
  "orchestrateRelease_try deps params ownr rpo s =
     (let s1 = updateWorkflowStatus (release_workflowId params)
                 \<lparr> wf_id = release_workflowId params, wf_type = release,
                   wf_status = ''analyzing'', lastUpdated = now deps (trace s),
                   services = Map.empty \<rparr> s;
          s2 = invoke (GetRepositoryStats ownr rpo) s1;
          repoStats = getRepositoryStats (github deps) (trace s2);
          s3 = invoke (GetProjectIssueStats (jira_project params)) s2;
          jiraStats = getProjectIssueStats (jira deps) (trace s3);
          s4 = invoke (FindChannelByName (slack_channel params)) s3;
          slackChannel = findChannelByName (slack deps) (trace s4)
      in case promise_all3 (settled deps (trace s4)) repoStats jiraStats slackChannel of
           Inl e \<Rightarrow> (Inl e, s4)
         | Inr (contributors, totalIssues, found) \<Rightarrow>
             (case found of
                None \<Rightarrow>
                  (Inl (Error (''Slack channel '' @ slack_channel params @ '' not found'')), s4)
              | Some channel \<Rightarrow> assessAndNotify deps params totalIssues channel s4))"

definition orchestrateRelease ::
  "WorkflowDependencies \<Rightarrow> ReleaseOrchestrationParams \<Rightarrow> orchestrator
     \<Rightarrow> (error + ReleaseAnalysis) \<times> orchestrator" where
  "orchestrateRelease deps params s =
     (let repoParts = split_on CHR ''/'' (repository params);
          ownr = item repoParts 0;
          rpo = item repoParts 1
      in if \<not> truthy ownr \<or> \<not> truthy rpo then (Inl invalid_repository, s)
         else
           (case orchestrateRelease_try deps params (the ownr) (the rpo) s of
              (Inr result, s') \<Rightarrow> (Inr result, s')
            | (Inl e, s') \<Rightarrow>
                (Inl e,
                 updateWorkflowStatus (release_workflowId params)
                   \<lparr> wf_id = release_workflowId params, wf_type = release,
                     wf_status = ''failed'', lastUpdated = now deps (trace s'),
                     services = Map.empty \<rparr> s')))"

subsection \<open>syncWorkflowStatus\<close>

text \<open>\<^verbatim>\<open>status.services.github?.url\<close> and its like.\<close>

definition pointer :: "WorkflowStatus \<Rightarrow> platform \<Rightarrow> string \<Rightarrow> string option" where
  "pointer st p property = (case services st p of None \<Rightarrow> None | Some obj \<Rightarrow> obj property)"

definition updateStatusOnPlatform ::
  "WorkflowDependencies \<Rightarrow> platform \<Rightarrow> WorkflowStatus \<Rightarrow> string \<Rightarrow> orchestrator
     \<Rightarrow> (error + unit) \<times> orchestrator" where
  "updateStatusOnPlatform deps p st statusUpdate s =
     (case p of
        GitHub \<Rightarrow>
          if truthy (pointer st GitHub ''url'') then
            let urlParts = split_on CHR ''/'' (the (pointer st GitHub ''url''))
            in if ''pull'' \<in> set urlParts then
                 let ownr = from_end urlParts 4;
                     rpo = from_end urlParts 3;
                     pullNumberStr = from_end urlParts 1
                 in if \<not> truthy pullNumberStr then (Inl (Error ''Invalid GitHub PR URL''), s)
                    else if \<not> truthy ownr \<or> \<not> truthy rpo
                    then (Inl (Error ''Invalid GitHub PR URL format''), s)
                    else
                      let s1 = invoke (UpdatePRStatus (the ownr) (the rpo) (the pullNumberStr)
                                 ''pending'' (''IDWO: '' @ statusUpdate)) s
                      in (updatePRStatus (github deps) (trace s1), s1)
               else (Inr (), s)
          else (Inr (), s)
      | Jira \<Rightarrow>
          if truthy (pointer st Jira ''key'') then
            let s1 = invoke (AddCommentToIssue (the (pointer st Jira ''key''))
                       (StatusComment statusUpdate)) s
            in (addCommentToIssue (jira deps) (trace s1), s1)
          else (Inr (), s)
      | Slack \<Rightarrow>
          if truthy (pointer st Slack ''channel'') then
            let s1 = invoke (SendNotification (the (pointer st Slack ''channel''))
                       (StatusNotification (wf_type st) (wf_id st) statusUpdate)) s
            in (sendNotification (slack deps) (trace s1), s1)
          else (Inr (), s))"

text \<open>
  The body of the loop over the platforms: a push that throws is logged and skipped; after
  a push that returns, the platform's entry becomes
  \<^verbatim>\<open>{ status: params.status_update, ...currentService }\<close>, in which the properties of
  \<^verbatim>\<open>currentService\<close> come last and so override \<^verbatim>\<open>status\<close>.  (The source updates
  \<^verbatim>\<open>updatedStatus.services\<close> in place; that object is shared with the stored record,
  which \<^verbatim>\<open>workflowState.set\<close> replaces by \<^verbatim>\<open>updatedStatus\<close> after the loop.)
\<close>

definition syncPlatform ::
  "WorkflowDependencies \<Rightarrow> string \<Rightarrow> WorkflowStatus \<times> orchestrator \<Rightarrow> platform
     \<Rightarrow> WorkflowStatus \<times> orchestrator" where
  "syncPlatform deps statusUpdate acc p =
     (case acc of (updatedStatus, s) \<Rightarrow>
        (case updateStatusOnPlatform deps p updatedStatus statusUpdate s of
           (Inl e, s') \<Rightarrow> (updatedStatus, s')
         | (Inr u, s') \<Rightarrow>
             let currentService =
                   (case services updatedStatus p of None \<Rightarrow> Map.empty | Some obj \<Rightarrow> obj)
             in (updatedStatus\<lparr> services := (services updatedStatus)
                                  (p \<mapsto> [''status'' \<mapsto> statusUpdate] ++ currentService) \<rparr>,
                 s')))"

definition syncWorkflowStatus ::
  "WorkflowDependencies \<Rightarrow> WorkflowStatusParams \<Rightarrow> orchestrator
     \<Rightarrow> (error + WorkflowStatus) \<times> orchestrator" where
  "syncWorkflowStatus deps params s =
     (case workflowState s (workflow_id params) of
        None \<Rightarrow> (Inl (Error (''Workflow '' @ workflow_id params @ '' not found'')), s)
      | Some existingStatus \<Rightarrow>
          let updatedStatus =
                existingStatus\<lparr> wf_status := status_update params,
                                lastUpdated := now deps (trace s) \<rparr>;
              (synced, s') =
                foldl (syncPlatform deps (status_update params)) (updatedStatus, s)
                  (case platforms params of None \<Rightarrow> [GitHub, Jira, Slack] | Some ps \<Rightarrow> ps)
          in (Inr synced,
              s'\<lparr> workflowState := (workflowState s')(workflow_id params \<mapsto> synced),
                  trace := trace s' @ [Set (workflow_id params) synced] \<rparr>))"

section \<open>Observing a run\<close>

text \<open>
  The records written to the state store, in order, as pairs of workflow id and status;
  the adapter calls made, in order; and the status a finished operation leaves behind:
  \<^verbatim>\<open>completed\<close> when it returns, \<^verbatim>\<open>failed\<close> when it throws.
\<close>

fun writes :: "event list \<Rightarrow> (string \<times> string) list" where
  "writes [] = []"
| "writes (Call c # es) = writes es"
| "writes (Set i r # es) = (i, wf_status r) # writes es"

fun calls :: "event list \<Rightarrow> call list" where
  "calls [] = []"
| "calls (Call c # es) = c # calls es"
| "calls (Set i r # es) = calls es"

definition outcome_status :: "error + 'a \<Rightarrow> string" where
  "outcome_status r = (case r of Inl e \<Rightarrow> ''failed'' | Inr v \<Rightarrow> ''completed'')"

subsection \<open>Example surroundings\<close>

text \<open>
  A fresh orchestrator, and adapters that answer every call, after the mocks of the
  repository's orchestrator tests; the variants differ in one adapter method each.
\<close>

definition start :: orchestrator where
  "start = \<lparr> workflowState = Map.empty, trace = [] \<rparr>"

definition all_succeed :: WorkflowDependencies where
  "all_succeed =
     \<lparr> github =
         \<lparr> getPRDetails = (\<lambda>h. Inr \<lparr> title = ''Test PR'', body = [], files = [],
                                       commits = [], reviews = [] \<rparr>),
           getRepositoryStats = (\<lambda>h. Inr []),
           getIssueDetails = (\<lambda>h. Inr ''Linked issue''),
           updatePRStatus = (\<lambda>h. Inr ()),
           createRelease = (\<lambda>h. Inr ()) \<rparr>,
       jira =
         \<lparr> getIssue = (\<lambda>h. Inr \<lparr> key = ''PROJ-789'',
                     issue_summary = ''Critical bug in payment system'',
                     description = ''Payment processing fails intermittently'',
                     labels = [''payment''], comments = [], reporter = ''user@example.com'',
                     components = [''backend''], sprint = None, issue_priority = ''High'' \<rparr>),
           searchIssues = (\<lambda>h. Inr []),
           addCommentToIssue = (\<lambda>h. Inr ()),
           getProjectIssueStats = (\<lambda>h. Inr 10) \<rparr>,
       slack =
         \<lparr> findChannelByName = (\<lambda>h. Inr (Some ''C123456'')),
           sendNotification = (\<lambda>h. Inr ()) \<rparr>,
       ai =
         \<lparr> ai_analyzePullRequest = (\<lambda>h. Inr \<lparr> analysis = ''Test analysis'', confidence = Finite 80,
                     recommendations = [], structuredData = None \<rparr>),
           ai_triageIssue = (\<lambda>h. Inr \<lparr> analysis = ''Test analysis'', confidence = Finite 80,
                     recommendations = [], structuredData = None \<rparr>),
           ai_assessReleaseReadiness = (\<lambda>h. Inr \<lparr> analysis = ''Test analysis'',
                     confidence = Finite 80, recommendations = [], structuredData = None \<rparr>) \<rparr>,
       now = length,
       settled = (\<lambda>h. []) \<rparr>"

definition comment_error :: error where
  "comment_error = ServiceError ''Failed to add comment to JIRA issue: timeout'' svc_jira None True"

definition comment_fails :: WorkflowDependencies where
  "comment_fails =
     all_succeed\<lparr> jira := (jira all_succeed)\<lparr> addCommentToIssue := (\<lambda>h. Inl comment_error) \<rparr> \<rparr>"

definition fetch_error :: error where
  "fetch_error = ServiceError ''Failed to fetch PR details: Not Found'' svc_github (Some 404) True"

definition fetch_fails :: WorkflowDependencies where
  "fetch_fails =
     all_succeed\<lparr> github := (github all_succeed)\<lparr> getPRDetails := (\<lambda>h. Inl fetch_error) \<rparr> \<rparr>"


definition no_channel :: WorkflowDependencies where
  "no_channel =
     all_succeed\<lparr> slack := (slack all_succeed)\<lparr> findChannelByName := (\<lambda>h. Inr None) \<rparr> \<rparr>"


definition pr_params :: PRAnalysisParams where
  "pr_params = \<lparr> owner = ''o'', repo = ''r'', pull_number = 1, include_jira_context = None \<rparr>"

definition triage_params :: SmartTriageParams where
  "triage_params = \<lparr> issue_key = ''PROJ-789'', github_issue_url = None,
                      team_context = Some ''backend-team'' \<rparr>"

definition release_params :: ReleaseOrchestrationParams where
  "release_params = \<lparr> release_version = ''v1.0.0'', repository = ''test/repo'',
       jira_project = ''PROJ'', slack_channel = ''#nonexistent'', dry_run = None \<rparr>"

text \<open>A store holding one record that points to a pull request, an issue and a channel.\<close>

definition tracked :: orchestrator where
  "tracked =
     \<lparr> workflowState =
         [''wf-1'' \<mapsto>
            \<lparr> wf_id = ''wf-1'', wf_type = pr, wf_status = ''completed'', lastUpdated = 0,
              services =
                [GitHub \<mapsto> [''status'' \<mapsto> ''analyzed'',
                             ''url'' \<mapsto> ''https://github.com/o/r/pull/1''],
                 Jira \<mapsto> [''status'' \<mapsto> ''analyzed'', ''key'' \<mapsto> ''PROJ''],
                 Slack \<mapsto> [''channel'' \<mapsto> ''C123456'',
                            ''messageId'' \<mapsto> ''notification-sent'']] \<rparr>],
       trace = [] \<rparr>"

text \<open>
  Raw replies of the model, with a number, with nothing and with an empty object for
  confidence, and a stand-in for the language's conversion of strings and arrays, which
  these replies never reach.
\<close>

definition unconverted :: "json \<Rightarrow> error + js_number" where
  "unconverted v = Inr NaN"

definition reply :: "js_number \<Rightarrow> json" where
  "reply c = JObject [''analysis'' \<mapsto> JString ''ok'', ''confidence'' \<mapsto> JNumber c,
                      ''recommendations'' \<mapsto> JArray []]"

definition reply_without_confidence :: json where
  "reply_without_confidence =
     JObject [''analysis'' \<mapsto> JString ''ok'', ''recommendations'' \<mapsto> JArray []]"

definition reply_with_object :: json where
  "reply_with_object =
     JObject [''analysis'' \<mapsto> JString ''ok'', ''confidence'' \<mapsto> JObject Map.empty,
              ''recommendations'' \<mapsto> JArray []]"

section \<open>Properties\<close>

subsection \<open>Auxiliary facts\<close>

lemmas run_defs =
  analyzePR_def analyzePR_try_def smartTriage_def smartTriage_try_def
  orchestrateRelease_def orchestrateRelease_try_def assessAndNotify_def executeRelease_def
  syncWorkflowStatus_def syncPlatform_def updateStatusOnPlatform_def
  getTeamMembers_def extractGitHubIssueContext_def findSimilarIssues_def
  getSuggestedSprint_def getBlockingIssues_def
  invoke_def updateWorkflowStatus_def Let_def
  pr_workflowId_def pr_url_def triage_workflowId_def release_workflowId_def
  truthy_def or_string_def or_number_def or_array_def sd_field_def item_def from_end_def
  pointer_def

lemmas example_defs =
  all_succeed_def triage_params_def pr_params_def release_params_def start_def

lemma writes_append [simp]: "writes (xs @ ys) = writes xs @ writes ys"
  by (induction xs rule: writes.induct) simp_all

lemma calls_append [simp]: "calls (xs @ ys) = calls xs @ calls ys"
  by (induction xs rule: calls.induct) simp_all

lemma trace_invoke [simp]: "trace (invoke c s) = trace s @ [Call c]"
  by (simp add: invoke_def)

lemma workflowState_invoke [simp]: "workflowState (invoke c s) = workflowState s"
  by (simp add: invoke_def)

lemma trace_updateWorkflowStatus [simp]:
  "trace (updateWorkflowStatus i r s) = trace s @ [Set i r]"
  by (simp add: updateWorkflowStatus_def)

lemma workflowState_updateWorkflowStatus [simp]:
  "workflowState (updateWorkflowStatus i r s) = (workflowState s)(i \<mapsto> r)"
  by (simp add: updateWorkflowStatus_def)

lemma show_nat_1 [simp]: "show_nat (Suc 0) = ''1''"
  by (subst show_nat.simps) simp

lemma pr_params_id: "pr_workflowId pr_params = ''pr-o-r-1''"
  by (simp add: pr_workflowId_def pr_params_def)

text \<open>Each guarded helper makes its one adapter call and touches nothing else.\<close>

lemma getTeamMembers_state:
  "getTeamMembers deps a b s = (x, s') \<Longrightarrow> s' = invoke (GetRepositoryStats a b) s"
  by (auto simp: getTeamMembers_def Let_def split: sum.splits)

lemma findSimilarIssues_state:
  "findSimilarIssues deps a b s = (x, s')
     \<Longrightarrow> s' = invoke (SearchIssues (SimilarTo (a @ '' '' @ b)) 5) s"
  by (auto simp: findSimilarIssues_def Let_def split: sum.splits)

lemma getSuggestedSprint_state:
  "getSuggestedSprint deps k s = (x, s') \<Longrightarrow> s' = invoke (GetIssue k) s"
  by (auto simp: getSuggestedSprint_def Let_def split: sum.splits)

lemma getBlockingIssues_state:
  "getBlockingIssues deps k s = (x, s') \<Longrightarrow> s' = invoke (SearchIssues (Blocking k) 10) s"
  by (auto simp: getBlockingIssues_def Let_def split: sum.splits)

lemma extractGitHubIssueContext_state:
  "extractGitHubIssueContext deps url s = (x, s') \<Longrightarrow>
     workflowState s' = workflowState s \<and> writes (trace s') = writes (trace s)"
  by (auto simp: extractGitHubIssueContext_def Let_def split: sum.splits if_splits)

lemma executeRelease_state:
  "executeRelease deps p res s = (x, s') \<Longrightarrow>
     workflowState s' = workflowState s \<and> writes (trace s') = writes (trace s)"
  by (auto simp: executeRelease_def Let_def split: if_splits)



text \<open>The records each operation writes, and the status it leaves in the store.\<close>

lemma analyzePR_writes:
  "analyzePR deps p s = (r, s') \<Longrightarrow>
   writes (trace s') = writes (trace s) @
      [(pr_workflowId p, ''analyzing''), (pr_workflowId p, outcome_status r)]
   \<and> map_option wf_status (workflowState s' (pr_workflowId p)) = Some (outcome_status r)"
  by (auto simp: analyzePR_def analyzePR_try_def Let_def outcome_status_def
      split: sum.splits prod.splits dest!: getTeamMembers_state)

lemma smartTriage_writes:
  "smartTriage deps p s = (r, s') \<Longrightarrow>
   writes (trace s') = writes (trace s) @
      [(triage_workflowId p, ''triaging''), (triage_workflowId p, outcome_status r)]
   \<and> map_option wf_status (workflowState s' (triage_workflowId p)) = Some (outcome_status r)"
  by (auto simp: smartTriage_def smartTriage_try_def Let_def outcome_status_def
      split: sum.splits prod.splits if_splits
      dest!: findSimilarIssues_state getSuggestedSprint_state extractGitHubIssueContext_state)

lemma assessAndNotify_writes:
  "assessAndNotify deps p n ch s = (r, s') \<Longrightarrow>
     (case r of
        Inl e \<Rightarrow> writes (trace s') = writes (trace s)
      | Inr v \<Rightarrow> writes (trace s') = writes (trace s) @ [(release_workflowId p, ''completed'')]
           \<and> map_option wf_status (workflowState s' (release_workflowId p)) = Some ''completed'')"
  by (auto simp: assessAndNotify_def Let_def
      split: sum.splits prod.splits if_splits
      dest!: getBlockingIssues_state executeRelease_state)

lemma orchestrateRelease_try_writes:
  "orchestrateRelease_try deps p a b s = (r, s') \<Longrightarrow>
     (case r of
        Inl e \<Rightarrow> writes (trace s') = writes (trace s) @ [(release_workflowId p, ''analyzing'')]
      | Inr v \<Rightarrow> writes (trace s') = writes (trace s) @
           [(release_workflowId p, ''analyzing''), (release_workflowId p, ''completed'')]
           \<and> map_option wf_status (workflowState s' (release_workflowId p)) = Some ''completed'')"
  by (auto simp: orchestrateRelease_try_def Let_def
      split: sum.splits prod.splits option.splits
      dest!: assessAndNotify_writes)

lemma orchestrateRelease_writes:
  "truthy (item (split_on CHR ''/'' (repository p)) 0) \<Longrightarrow>
   truthy (item (split_on CHR ''/'' (repository p)) 1) \<Longrightarrow>
   orchestrateRelease deps p s = (r, s') \<Longrightarrow>
   writes (trace s') = writes (trace s) @
      [(release_workflowId p, ''analyzing''), (release_workflowId p, outcome_status r)]
   \<and> map_option wf_status (workflowState s' (release_workflowId p)) = Some (outcome_status r)"
  by (auto simp: orchestrateRelease_def Let_def outcome_status_def
      split: sum.splits prod.splits
      dest!: orchestrateRelease_try_writes)

text \<open>What \<^verbatim>\<open>analyzePR\<close> stores when it returns, and where its exceptions come from.\<close>

lemma analyzePR_stored:
  "analyzePR deps p s = (Inr res, s1) \<Longrightarrow>
     \<exists>t. workflowState s1 (pr_workflowId p) =
       Some \<lparr> wf_id = pr_workflowId p, wf_type = pr, wf_status = ''completed'', lastUpdated = t,
              services = [GitHub \<mapsto> [''status'' \<mapsto> ''analyzed'', ''url'' \<mapsto> pr_url p]] \<rparr>"
  by (auto simp: analyzePR_def analyzePR_try_def Let_def
      split: sum.splits prod.splits)

lemma analyzePR_try_rejection:
  "analyzePR_try deps p s = (Inl e, s0) \<Longrightarrow>
     getPRDetails (github deps) (trace s0) = Inl e
       \<and> last (trace s0) = Call (GetPRDetails (owner p) (repo p) (pull_number p))
     \<or> ai_analyzePullRequest (ai deps) (trace s0) = Inl e
       \<and> (\<exists>d m. last (trace s0) = Call (AnalyzePullRequest d m))"
  by (auto simp: analyzePR_try_def Let_def split: sum.splits prod.splits)


text \<open>The clamp of \<^verbatim>\<open>analyzeContext\<close>, case by case, and where the confidence comes from.\<close>

lemma clamp_cases:
  "math_max (Finite 0) (math_min (Finite 100) c) =
     (case c of NaN \<Rightarrow> NaN | NegInfinity \<Rightarrow> Finite 0
      | Finite x \<Rightarrow> Finite (max 0 (min 100 x)) | Infinity \<Rightarrow> Finite 100)"
  by (cases c) simp_all

lemma analyzeContext_confidence:
  "analyzeContext convert response = Inr r \<Longrightarrow>
     \<exists>v c. response = Parsed v
       \<and> ToNumber convert (read_property v ''confidence'') = Inr c
       \<and> confidence r = math_max (Finite 0) (math_min (Finite 100) c)"
  by (auto simp: analyzeContext_def split: llm_response.splits if_splits option.splits
      json.splits sum.splits)

lemma withStructuredData_confidence:
  "withStructuredData extract result = Inr r' \<Longrightarrow> confidence r' = confidence result"
  by (auto simp: withStructuredData_def split: sum.splits)

text \<open>One turn of the loop of \<^verbatim>\<open>syncWorkflowStatus\<close>.\<close>

lemma syncPlatform_override:
  "pointer st p ''status'' = Some v \<Longrightarrow> syncPlatform deps u (st, s) p = (st', s')
     \<Longrightarrow> pointer st' p ''status'' = Some v"
  by (auto simp: syncPlatform_def pointer_def map_add_def
      split: sum.splits prod.splits option.splits)

lemma syncPlatform_state:
  "syncPlatform deps u (st, s) p = (st', s') \<Longrightarrow>
     s' = snd (updateStatusOnPlatform deps p st u s)"
  by (auto simp: syncPlatform_def split: sum.splits prod.splits)

subsection \<open>Status synchronisation after an analysis\<close>

text \<open>
  C1.  After \<^verbatim>\<open>analyzePR\<close> has returned and stored its record, a
  \<^verbatim>\<open>syncWorkflowStatus\<close> of that workflow for the platform \<^verbatim>\<open>github\<close> returns the
  updated record and stores it, with the new workflow status.  The claim goes on:
  "and \<^verbatim>\<open>services.github.status\<close> is the new status".  The code does not do that: the
  entry is rebuilt as \<^verbatim>\<open>{ status: params.status_update, ...currentService }\<close>, and the
  \<^verbatim>\<open>status: 'analyzed'\<close> that \<^verbatim>\<open>analyzePR\<close> stored comes last in the spread.  Whatever the
  push answers, the entry keeps \<^verbatim>\<open>analyzed\<close>.
\<close>

theorem sync_after_analyzePR:
  assumes "analyzePR deps p s = (Inr res, s1)"
  shows "\<exists>st s2. syncWorkflowStatus deps
            \<lparr> workflow_id = pr_workflowId p, status_update = u, platforms = Some [GitHub] \<rparr> s1
              = (Inr st, s2)
          \<and> workflowState s2 (pr_workflowId p) = Some st
          \<and> wf_status st = u
          \<and> pointer st GitHub ''status'' = Some ''analyzed''"
proof -
  from analyzePR_stored [OF assms] obtain t where
    stored: "workflowState s1 (pr_workflowId p) =
       Some \<lparr> wf_id = pr_workflowId p, wf_type = pr, wf_status = ''completed'', lastUpdated = t,
              services = [GitHub \<mapsto> [''status'' \<mapsto> ''analyzed'', ''url'' \<mapsto> pr_url p]] \<rparr>"
    by blast
  let ?upd = "\<lparr> wf_id = pr_workflowId p, wf_type = pr, wf_status = u,
                 lastUpdated = now deps (trace s1),
                 services = [GitHub \<mapsto> [''status'' \<mapsto> ''analyzed'', ''url'' \<mapsto> pr_url p]] \<rparr>"
  obtain st s' where step: "syncPlatform deps u (?upd, s1) GitHub = (st, s')"
    by (cases "syncPlatform deps u (?upd, s1) GitHub") blast
  have ptr: "pointer ?upd GitHub ''status'' = Some ''analyzed''"
    by (simp add: pointer_def)
  have kept: "pointer st GitHub ''status'' = Some ''analyzed''"
    using syncPlatform_override [OF ptr step] .
  have st_status: "wf_status st = u"
    using step by (auto simp: syncPlatform_def split: sum.splits prod.splits)
  show ?thesis
    using stored step kept st_status by (simp add: syncWorkflowStatus_def)
qed

text \<open>
  The run of the claim: \<^verbatim>\<open>analyzePR({owner: "o", repo: "r", pull_number: 1})\<close>, then
  \<^verbatim>\<open>syncWorkflowStatus({workflow_id: "pr-o-r-1", status_update: "in-review", platforms: ["github"]})\<close>,
  every adapter call succeeding.  The status check is pushed, the sync returns, and the
  stored \<^verbatim>\<open>services.github.status\<close> is \<^verbatim>\<open>analyzed\<close>, not \<^verbatim>\<open>in-review\<close>.
\<close>

theorem sync_after_analyzePR_witness:
  "\<exists>st s2. syncWorkflowStatus all_succeed
       \<lparr> workflow_id = ''pr-o-r-1'', status_update = ''in-review'', platforms = Some [GitHub] \<rparr>
       (snd (analyzePR all_succeed pr_params start)) = (Inr st, s2)
     \<and> workflowState s2 ''pr-o-r-1'' = Some st
     \<and> pointer st GitHub ''status'' = Some ''analyzed''
     \<and> calls (trace s2) =
         [GetPRDetails ''o'' ''r'' 1, GetRepositoryStats ''o'' ''r'',
          AnalyzePullRequest \<lparr> title = ''Test PR'', body = [], files = [],
                                commits = [], reviews = [] \<rparr> [],
          UpdatePRStatus ''o'' ''r'' ''1'' ''pending'' ''IDWO: in-review'']"
proof -
  have "\<exists>res. analyzePR all_succeed pr_params start
              = (Inr res, snd (analyzePR all_succeed pr_params start))"
    by (simp add: run_defs example_defs)
  then obtain res where "analyzePR all_succeed pr_params start
              = (Inr res, snd (analyzePR all_succeed pr_params start))" by blast
  from sync_after_analyzePR [OF this, of "''in-review''"]
  obtain st s2 where
    run: "syncWorkflowStatus all_succeed
       \<lparr> workflow_id = ''pr-o-r-1'', status_update = ''in-review'', platforms = Some [GitHub] \<rparr>
       (snd (analyzePR all_succeed pr_params start)) = (Inr st, s2)"
    and rest: "workflowState s2 ''pr-o-r-1'' = Some st"
       "pointer st GitHub ''status'' = Some ''analyzed''"
    by (auto simp: pr_params_id)
  have "calls (trace (snd (syncWorkflowStatus all_succeed
       \<lparr> workflow_id = ''pr-o-r-1'', status_update = ''in-review'', platforms = Some [GitHub] \<rparr>
       (snd (analyzePR all_succeed pr_params start))))) =
         [GetPRDetails ''o'' ''r'' 1, GetRepositoryStats ''o'' ''r'',
          AnalyzePullRequest \<lparr> title = ''Test PR'', body = [], files = [],
                                commits = [], reviews = [] \<rparr> [],
          UpdatePRStatus ''o'' ''r'' ''1'' ''pending'' ''IDWO: in-review'']"
    by (simp add: run_defs example_defs)
  with run rest show ?thesis by simp
qed

subsection \<open>Failures and the stored status\<close>

text \<open>
  C2, as the code has it.  Take a \<^verbatim>\<open>smartTriage\<close> in which, each at the point of the
  run where the call is made, the fetch of the tracker issue is answered with the issue,
  the agent's triage with an analysis, and the write of the audit comment is rejected
  with an error \<open>e\<close>; the best-effort lookups between them may go either way.  Then
  \<^verbatim>\<open>smartTriage\<close> throws \<open>e\<close> itself.  Its whole run is: the opening write, the
  fetch, at most one call for the GitHub issue, the search for similar issues, the
  agent's triage, the sprint lookup, the one comment write, and the write of a record
  with status \<^verbatim>\<open>failed\<close>, which is the stored record.  (The comment is awaited inside
  the \<^verbatim>\<open>try\<close> with no guard of its own.)
\<close>

theorem smartTriage_comment_failure:
  fixes deps :: WorkflowDependencies and p :: SmartTriageParams and s :: orchestrator
    and fetched :: JiraIssue and a :: "(string, string list, triage_structured) AnalysisResult"
  defines "wid \<equiv> triage_workflowId p"
  defines "s2 \<equiv> invoke (GetIssue (issue_key p))
                  (updateWorkflowStatus wid
                     \<lparr> wf_id = wid, wf_type = issue, wf_status = ''triaging'',
                       lastUpdated = now deps (trace s), services = Map.empty \<rparr> s)"
  defines "s3 \<equiv> (if truthy (github_issue_url p)
                  then snd (extractGitHubIssueContext deps (the (github_issue_url p)) s2)
                  else s2)"
  defines "s4 \<equiv> invoke (SearchIssues
                    (SimilarTo (issue_summary fetched @ '' '' @ description fetched)) 5) s3"
  defines "similar \<equiv> (case searchIssues (jira deps) (trace s4) of
                         Inl x \<Rightarrow> []
                       | Inr found \<Rightarrow> map (\<lambda>i. (key i, issue_summary i)) found)"
  defines "s5 \<equiv> invoke (TriageIssue fetched (item (components fetched) 0) similar) s4"
  defines "s6 \<equiv> invoke (GetIssue (issue_key p)) s5"
  defines "s7 \<equiv> invoke (AddCommentToIssue (issue_key p)
                    (TriageComment (analysis a)
                       (or_string (sd_field a sd_priority) ''medium'')
                       (or_number (sd_field a sd_estimatedEffort) 3))) s6"
  defines "failed \<equiv> \<lparr> wf_id = wid, wf_type = issue, wf_status = ''failed'',
                       lastUpdated = now deps (trace s7), services = Map.empty \<rparr>"
  assumes "getIssue (jira deps) (trace s2) = Inr fetched"
      and "ai_triageIssue (ai deps) (trace s5) = Inr a"
      and "addCommentToIssue (jira deps) (trace s7) = Inl e"
  shows "\<exists>s' ctx. smartTriage deps p s = (Inl e, s')
           \<and> trace s' = trace s2 @ ctx @
                [Call (SearchIssues
                   (SimilarTo (issue_summary fetched @ '' '' @ description fetched)) 5),
                 Call (TriageIssue fetched (item (components fetched) 0) similar),
                 Call (GetIssue (issue_key p)),
                 Call (AddCommentToIssue (issue_key p)
                    (TriageComment (analysis a)
                       (or_string (sd_field a sd_priority) ''medium'')
                       (or_number (sd_field a sd_estimatedEffort) 3))),
                 Set wid failed]
           \<and> (ctx = [] \<or> (\<exists>x y n. ctx = [Call (GetIssueDetails x y n)]))
           \<and> workflowState s' = (workflowState s)(wid \<mapsto> failed)
           \<and> wf_status failed = ''failed''"
proof -
  have ctx: "s3 = s2 \<or> (\<exists>a b n. s3 = invoke (GetIssueDetails a b n) s2)"
    unfolding s3_def extractGitHubIssueContext_def Let_def
    by (simp split: sum.splits) blast
  have ws3: "workflowState s3 = workflowState s2"
    using ctx by auto
  have similar_eq: "findSimilarIssues deps (issue_summary fetched) (description fetched) s3
                      = (similar, s4)"
    by (simp add: findSimilarIssues_def Let_def similar_def s4_def split: sum.splits)
  have sprint_eq: "snd (getSuggestedSprint deps (issue_key p) s5) = s6"
    by (simp add: getSuggestedSprint_def Let_def s6_def split: sum.splits)
  have context_eq:
    "snd (if truthy (github_issue_url p)
          then extractGitHubIssueContext deps (the (github_issue_url p)) s2
          else (None, s2)) = s3"
    by (simp add: s3_def)
  have fetch: "getIssue (jira deps) (trace s2) = Inr fetched"
    and llm: "ai_triageIssue (ai deps) (trace s5) = Inr a"
    and rejected: "addCommentToIssue (jira deps) (trace s7) = Inl e"
    using assms(10-12) by simp_all
  have attempt: "smartTriage_try deps p s = (Inl e, s7)"
    unfolding smartTriage_try_def Let_def case_prod_beta
    unfolding wid_def [symmetric] s2_def [symmetric]
    by (simp add: fetch context_eq similar_eq s5_def [symmetric] llm sprint_eq
          s7_def [symmetric] rejected)
  have run: "smartTriage deps p s = (Inl e, updateWorkflowStatus wid failed s7)"
    using attempt by (simp add: smartTriage_def wid_def failed_def)
  have store: "workflowState s7 = (workflowState s)(wid \<mapsto>
                 \<lparr> wf_id = wid, wf_type = issue, wf_status = ''triaging'',
                   lastUpdated = now deps (trace s), services = Map.empty \<rparr>)"
    using ws3 by (simp add: s7_def s6_def s5_def s4_def s2_def)
  have tr: "\<exists>ctx. trace s7 = trace s2 @ ctx @
                [Call (SearchIssues
                   (SimilarTo (issue_summary fetched @ '' '' @ description fetched)) 5),
                 Call (TriageIssue fetched (item (components fetched) 0) similar),
                 Call (GetIssue (issue_key p)),
                 Call (AddCommentToIssue (issue_key p)
                    (TriageComment (analysis a)
                       (or_string (sd_field a sd_priority) ''medium'')
                       (or_number (sd_field a sd_estimatedEffort) 3)))]
           \<and> (ctx = [] \<or> (\<exists>x y n. ctx = [Call (GetIssueDetails x y n)]))"
    using ctx by (auto simp: s7_def s6_def s5_def s4_def)
  then obtain ctx where
    shape: "trace s7 = trace s2 @ ctx @
                [Call (SearchIssues
                   (SimilarTo (issue_summary fetched @ '' '' @ description fetched)) 5),
                 Call (TriageIssue fetched (item (components fetched) 0) similar),
                 Call (GetIssue (issue_key p)),
                 Call (AddCommentToIssue (issue_key p)
                    (TriageComment (analysis a)
                       (or_string (sd_field a sd_priority) ''medium'')
                       (or_number (sd_field a sd_estimatedEffort) 3)))]"
    and lookup: "ctx = [] \<or> (\<exists>x y n. ctx = [Call (GetIssueDetails x y n)])"
    by blast
  show ?thesis
    using run store shape lookup
    by (intro exI [of _ "updateWorkflowStatus wid failed s7"] exI [of _ ctx])
       (simp add: failed_def)
qed

theorem smartTriage_comment_failure_witness:
  "fst (smartTriage comment_fails triage_params start) = Inl comment_error
   \<and> map_option wf_status
         (workflowState (snd (smartTriage comment_fails triage_params start)) ''triage-PROJ-789'')
       = Some ''failed''"
proof -
  have fetch: "getIssue (jira comment_fails) h = Inr (projr (getIssue (jira all_succeed) []))"
    and llm: "ai_triageIssue (ai comment_fails) h
                = Inr (projr (ai_triageIssue (ai all_succeed) []))"
    and rejected: "addCommentToIssue (jira comment_fails) h = Inl comment_error" for h
    by (simp_all add: comment_fails_def all_succeed_def)
  from smartTriage_comment_failure [where deps = comment_fails and p = triage_params
         and s = start, OF fetch llm rejected]
  obtain s' where "smartTriage comment_fails triage_params start = (Inl comment_error, s')"
    and "map_option wf_status (workflowState s' (triage_workflowId triage_params))
           = Some ''failed''"
    by auto
  then show ?thesis
    by (simp add: triage_workflowId_def triage_params_def)
qed

text \<open>
  C2 as stated fails.  Triage of PROJ-789 with every adapter answering except the comment
  write: the issue is fetched, similar issues are searched, the agent is asked, the sprint
  is looked up, the comment is attempted, and the operation throws the comment error and
  leaves the status \<^verbatim>\<open>failed\<close>.
\<close>

theorem smartTriage_comment_counterexample:
  "fst (smartTriage comment_fails triage_params start) = Inl comment_error
   \<and> map_option wf_status
         (workflowState (snd (smartTriage comment_fails triage_params start)) ''triage-PROJ-789'')
       = Some ''failed''
   \<and> calls (trace (snd (smartTriage comment_fails triage_params start)))
       = [GetIssue ''PROJ-789'',
          SearchIssues (SimilarTo
            ''Critical bug in payment system Payment processing fails intermittently'') 5,
          TriageIssue (projr (getIssue (jira all_succeed) [])) (Some ''backend'') [],
          GetIssue ''PROJ-789'',
          AddCommentToIssue ''PROJ-789'' (TriageComment ''Test analysis'' ''medium'' 3)]"
  by (simp add: run_defs example_defs comment_fails_def comment_error_def)

text \<open>
  C3, as the code has it.  Each of \<^verbatim>\<open>analyzePR\<close>, \<^verbatim>\<open>smartTriage\<close> and
  \<^verbatim>\<open>orchestrateRelease\<close> (the latter on a repository of the form owner/repo) writes
  exactly two records, both under its own workflow id: first the opening status, which is
  \<^verbatim>\<open>analyzing\<close> for \<^verbatim>\<open>analyzePR\<close> and \<^verbatim>\<open>orchestrateRelease\<close> and \<^verbatim>\<open>triaging\<close> for
  \<^verbatim>\<open>smartTriage\<close>; then \<^verbatim>\<open>completed\<close> if the operation returns and \<^verbatim>\<open>failed\<close> if it
  throws.  The second is the status left in the store.
\<close>

theorem stored_status_sequence:
  assumes "item (split_on CHR ''/'' (repository rp)) 0 = Some a" and "a \<noteq> []"
      and "item (split_on CHR ''/'' (repository rp)) 1 = Some b" and "b \<noteq> []"
  shows "writes (trace (snd (analyzePR deps pp s)))
           = writes (trace s) @
               [(pr_workflowId pp, ''analyzing''),
                (pr_workflowId pp, outcome_status (fst (analyzePR deps pp s)))]
       \<and> map_option wf_status (workflowState (snd (analyzePR deps pp s)) (pr_workflowId pp))
           = Some (outcome_status (fst (analyzePR deps pp s)))
       \<and> writes (trace (snd (smartTriage deps tp s)))
           = writes (trace s) @
               [(triage_workflowId tp, ''triaging''),
                (triage_workflowId tp, outcome_status (fst (smartTriage deps tp s)))]
       \<and> map_option wf_status (workflowState (snd (smartTriage deps tp s)) (triage_workflowId tp))
           = Some (outcome_status (fst (smartTriage deps tp s)))
       \<and> writes (trace (snd (orchestrateRelease deps rp s)))
           = writes (trace s) @
               [(release_workflowId rp, ''analyzing''),
                (release_workflowId rp, outcome_status (fst (orchestrateRelease deps rp s)))]
       \<and> map_option wf_status
             (workflowState (snd (orchestrateRelease deps rp s)) (release_workflowId rp))
           = Some (outcome_status (fst (orchestrateRelease deps rp s)))"
proof -
  have wf: "truthy (item (split_on CHR ''/'' (repository rp)) 0)"
           "truthy (item (split_on CHR ''/'' (repository rp)) 1)"
    using assms by (simp_all add: truthy_def)
  show ?thesis
    using analyzePR_writes [OF surjective_pairing, of deps pp s]
          smartTriage_writes [OF surjective_pairing, of deps tp s]
          orchestrateRelease_writes [OF wf surjective_pairing, of deps s]
    by simp
qed

theorem stored_status_sequence_witness:
  "writes (trace (snd (orchestrateRelease no_channel release_params start)))
     = [(''release-v1.0.0'', ''analyzing''), (''release-v1.0.0'', ''failed'')]
   \<and> writes (trace (snd (analyzePR all_succeed pr_params start)))
     = [(''pr-o-r-1'', ''analyzing''), (''pr-o-r-1'', ''completed'')]
   \<and> writes (trace (snd (smartTriage comment_fails triage_params start)))
     = [(''triage-PROJ-789'', ''triaging''), (''triage-PROJ-789'', ''failed'')]"
proof -
  have r: "fst (orchestrateRelease no_channel release_params start)
             = Inl (Error ''Slack channel #nonexistent not found'')"
    by (simp add: run_defs example_defs no_channel_def promise_all3_def rejection_def)
  have p: "\<exists>res. fst (analyzePR all_succeed pr_params start) = Inr res"
    by (simp add: run_defs example_defs)
  have t: "fst (smartTriage comment_fails triage_params start) = Inl comment_error"
    by (simp add: run_defs example_defs comment_fails_def)
  have wf: "item (split_on CHR ''/'' (repository release_params)) 0 = Some ''test''"
           "item (split_on CHR ''/'' (repository release_params)) 1 = Some ''repo''"
    by (simp_all add: release_params_def item_def)
  note seq = stored_status_sequence [OF wf(1) _ wf(2), where s = start]
  from seq [where deps = no_channel] seq [where deps = all_succeed and pp = pr_params]
       seq [where deps = comment_fails and tp = triage_params] r p t
  show ?thesis
    by (auto simp: outcome_status_def start_def pr_params_id triage_workflowId_def
          release_workflowId_def triage_params_def release_params_def)
qed

text \<open>
  C3 as stated fails for \<^verbatim>\<open>smartTriage\<close>: the first record it writes has status
  \<^verbatim>\<open>triaging\<close>.
\<close>

theorem smartTriage_first_status_counterexample:
  "hd (writes (trace (snd (smartTriage all_succeed triage_params start))))
     = (''triage-PROJ-789'', ''triaging'')
   \<and> writes (trace (snd (smartTriage all_succeed triage_params start)))
     = [(''triage-PROJ-789'', ''triaging''), (''triage-PROJ-789'', ''completed'')]"
  by (simp add: run_defs example_defs)

subsection \<open>The decision extraction\<close>

text \<open>
  C4.  The release-recommendation mapping: every score of at least 85 gives \<open>proceed\<close>,
  every score from 70 up to, not including, 85 gives \<open>caution\<close>, every score below 70
  gives \<open>block\<close>; in particular 85 gives \<open>proceed\<close>, 84 and 70 give \<open>caution\<close>, and 69
  gives \<open>block\<close>.
\<close>

theorem release_recommendation_thresholds:
  assumes "85 \<le> a" and "70 \<le> b" and "b < 85" and "c < 70"
  shows "determineReleaseRecommendation a = proceed
       \<and> determineReleaseRecommendation b = caution
       \<and> determineReleaseRecommendation c = block
       \<and> determineReleaseRecommendation 85 = proceed
       \<and> determineReleaseRecommendation 84 = caution
       \<and> determineReleaseRecommendation 70 = caution
       \<and> determineReleaseRecommendation 69 = block"
  using assms by (simp add: determineReleaseRecommendation_def)

theorem release_recommendation_thresholds_witness:
  "determineReleaseRecommendation 92.5 = proceed
   \<and> determineReleaseRecommendation 77 = caution
   \<and> determineReleaseRecommendation 12 = block"
  using release_recommendation_thresholds [of "92.5" 77 12] by simp

text \<open>
  C5, as the code has it.  Whenever \<^verbatim>\<open>analyzeContext\<close> returns, the confidence of its
  result is \<^verbatim>\<open>Math.max(0, Math.min(100, c))\<close> for the number \<open>c\<close> that the raw
  \<^verbatim>\<open>confidence\<close> converts to: for every number other than NaN (-5, 150 and the
  infinities included) that is a value within \<open>[0, 100]\<close>, and \<open>max 0 (min 100 x)\<close> for
  a finite \<open>x\<close>; when the raw confidence is missing or converts to NaN, it is NaN.  A
  parsed object with a numeric confidence and with recommendations does make
  \<^verbatim>\<open>analyzeContext\<close> return.  Each of the four agent methods hands on the confidence
  that \<^verbatim>\<open>analyzeContext\<close> built.
\<close>

theorem confidence_clamped:
  shows "(\<forall>r. analyzeContext convert response = Inr r \<longrightarrow>
            (\<exists>v c. response = Parsed v
               \<and> ToNumber convert (read_property v ''confidence'') = Inr c
               \<and> confidence r = math_max (Finite 0) (math_min (Finite 100) c)
               \<and> (c = NaN \<and> confidence r = NaN
                  \<or> c \<noteq> NaN \<and> (\<exists>x. confidence r = Finite x \<and> 0 \<le> x \<and> x \<le> 100))
               \<and> (\<forall>x. c = Finite x \<longrightarrow> confidence r = Finite (max 0 (min 100 x)))))
       \<and> (\<forall>entries n recs.
             response = Parsed (JObject entries)
               \<and> entries ''confidence'' = Some (JNumber n)
               \<and> entries ''recommendations'' = Some recs \<and> recs \<noteq> JNull \<longrightarrow>
             (\<exists>r. analyzeContext convert response = Inr r
                \<and> confidence r = math_max (Finite 0) (math_min (Finite 100) n)))
       \<and> (\<forall>r'. analyzePullRequest convert ex1 response = Inr r' \<longrightarrow>
             (\<exists>r. analyzeContext convert response = Inr r \<and> confidence r' = confidence r))
       \<and> (\<forall>r'. triageIssue convert ex2 response = Inr r' \<longrightarrow>
             (\<exists>r. analyzeContext convert response = Inr r \<and> confidence r' = confidence r))
       \<and> (\<forall>r'. assessReleaseReadiness convert ex3 response = Inr r' \<longrightarrow>
             (\<exists>r. analyzeContext convert response = Inr r \<and> confidence r' = confidence r))
       \<and> (\<forall>r'. generateTeamInsights convert ex4 response = Inr r' \<longrightarrow>
             (\<exists>r. analyzeContext convert response = Inr r \<and> confidence r' = confidence r))"
proof (intro conjI allI impI)
  fix r assume "analyzeContext convert response = Inr r"
  from analyzeContext_confidence [OF this] obtain v c where
    *: "response = Parsed v" "ToNumber convert (read_property v ''confidence'') = Inr c"
       "confidence r = math_max (Finite 0) (math_min (Finite 100) c)"
    by blast
  have "c = NaN \<and> confidence r = NaN
        \<or> c \<noteq> NaN \<and> (\<exists>x. confidence r = Finite x \<and> 0 \<le> x \<and> x \<le> 100)"
    using *(3) by (cases c) (simp_all add: clamp_cases)
  moreover have "\<forall>x. c = Finite x \<longrightarrow> confidence r = Finite (max 0 (min 100 x))"
    using *(3) by (simp add: clamp_cases)
  ultimately show "\<exists>v c. response = Parsed v
               \<and> ToNumber convert (read_property v ''confidence'') = Inr c
               \<and> confidence r = math_max (Finite 0) (math_min (Finite 100) c)
               \<and> (c = NaN \<and> confidence r = NaN
                  \<or> c \<noteq> NaN \<and> (\<exists>x. confidence r = Finite x \<and> 0 \<le> x \<and> x \<le> 100))
               \<and> (\<forall>x. c = Finite x \<longrightarrow> confidence r = Finite (max 0 (min 100 x)))"
    using * by blast
next
  fix entries n recs
  assume "response = Parsed (JObject entries)
               \<and> entries ''confidence'' = Some (JNumber n)
               \<and> entries ''recommendations'' = Some recs \<and> recs \<noteq> JNull"
  then show "\<exists>r. analyzeContext convert response = Inr r
                \<and> confidence r = math_max (Finite 0) (math_min (Finite 100) n)"
    by (cases recs) (simp_all add: analyzeContext_def read_property_def ToNumber_def)
next
  fix r' assume "analyzePullRequest convert ex1 response = Inr r'"
  then show "\<exists>r. analyzeContext convert response = Inr r \<and> confidence r' = confidence r"
    by (auto simp: analyzePullRequest_def split: sum.splits dest: withStructuredData_confidence)
next
  fix r' assume "triageIssue convert ex2 response = Inr r'"
  then show "\<exists>r. analyzeContext convert response = Inr r \<and> confidence r' = confidence r"
    by (auto simp: triageIssue_def split: sum.splits dest: withStructuredData_confidence)
next
  fix r' assume "assessReleaseReadiness convert ex3 response = Inr r'"
  then show "\<exists>r. analyzeContext convert response = Inr r \<and> confidence r' = confidence r"
    by (auto simp: assessReleaseReadiness_def split: sum.splits
          dest: withStructuredData_confidence)
next
  fix r' assume "generateTeamInsights convert ex4 response = Inr r'"
  then show "\<exists>r. analyzeContext convert response = Inr r \<and> confidence r' = confidence r"
    by (auto simp: generateTeamInsights_def split: sum.splits
          dest: withStructuredData_confidence)
qed

theorem confidence_clamped_witness:
  "(\<exists>r. analyzeContext unconverted (Parsed (reply (Finite 150))) = Inr r
       \<and> confidence r = Finite 100)
 \<and> (\<exists>r. analyzeContext unconverted (Parsed (reply (Finite (- 5)))) = Inr r
       \<and> confidence r = Finite 0)"
proof -
  let ?ex = "\<lambda>a::json option. (Inr () :: error + unit)"
  have hi: "\<exists>r. analyzeContext unconverted (Parsed (reply (Finite 150))) = Inr r
       \<and> confidence r = Finite 100"
    using confidence_clamped [of unconverted "Parsed (reply (Finite 150))" ?ex ?ex ?ex ?ex]
    by (simp add: reply_def)
  have lo: "\<exists>r. analyzeContext unconverted (Parsed (reply (Finite (- 5)))) = Inr r
       \<and> confidence r = Finite 0"
    using confidence_clamped [of unconverted "Parsed (reply (Finite (- 5)))" ?ex ?ex ?ex ?ex]
    by (simp add: reply_def)
  from hi lo show ?thesis by blast
qed

text \<open>
  C5 as stated fails.  The source only casts what \<^verbatim>\<open>JSON.parse\<close> returns.  For the
  response \<^verbatim>\<open>{"analysis": "ok", "recommendations": []}\<close>, which carries no confidence,
  and for \<^verbatim>\<open>{"analysis": "ok", "confidence": {}, "recommendations": []}\<close>, whose
  confidence is not a number, \<^verbatim>\<open>analyzeContext\<close> returns a result whose confidence is
  NaN, which is not within \<open>[0, 100]\<close>.
\<close>

theorem confidence_missing_counterexample:
  "analyzeContext unconverted (Parsed reply_without_confidence)
     = Inr \<lparr> analysis = Some (JString ''ok''), confidence = NaN,
             recommendations = JArray [], structuredData = None \<rparr>
   \<and> analyzeContext unconverted (Parsed reply_with_object)
     = Inr \<lparr> analysis = Some (JString ''ok''), confidence = NaN,
             recommendations = JArray [], structuredData = None \<rparr>"
  by (simp add: analyzeContext_def reply_without_confidence_def reply_with_object_def
        read_property_def ToNumber_def)

subsection \<open>Synchronising an unknown workflow\<close>

text \<open>
  C6.  \<^verbatim>\<open>syncWorkflowStatus\<close> on a workflow id that the state store does not hold throws
  the error \<^verbatim>\<open>Workflow <id> not found\<close> and leaves the orchestrator as it was: no adapter
  is called, so no platform is pushed to, and the state store is unchanged.
\<close>

theorem sync_unknown_workflow:
  assumes "workflowState s (workflow_id params) = None"
  shows "\<exists>s'. syncWorkflowStatus deps params s
                = (Inl (Error (''Workflow '' @ workflow_id params @ '' not found'')), s')
            \<and> calls (trace s') = calls (trace s)
            \<and> workflowState s' = workflowState s
            \<and> s' = s"
  using assms by (simp add: syncWorkflowStatus_def)

theorem sync_unknown_workflow_witness:
  "syncWorkflowStatus all_succeed
     \<lparr> workflow_id = ''pr-o-r-1'', status_update = ''in-review'', platforms = Some [GitHub] \<rparr>
     start
   = (Inl (Error ''Workflow pr-o-r-1 not found''), start)"
  using sync_unknown_workflow [of start
     "\<lparr> workflow_id = ''pr-o-r-1'', status_update = ''in-review'', platforms = Some [GitHub] \<rparr>"
     all_succeed]
  by (simp add: start_def)

subsection \<open>A release whose channel does not exist\<close>




subsection \<open>A pull-request analysis that fails\<close>

text \<open>
  C8.  Let \<open>h1\<close> be the trace at which \<^verbatim>\<open>analyzePR\<close> fetches the pull-request details:
  the opening write, then that call.  If the fetch rejects there with \<open>e\<close>, then
  \<^verbatim>\<open>analyzePR\<close> throws \<open>e\<close> itself, having done nothing more than write a record with
  status \<^verbatim>\<open>failed\<close> under the workflow's id, which is the stored record.  The same holds
  when the fetch resolves and the agent's analysis, the one other call that is not
  guarded, rejects with \<open>e\<close>; and when both resolve, \<^verbatim>\<open>analyzePR\<close> returns.  So whenever
  \<^verbatim>\<open>analyzePR\<close> throws an error, the last adapter call rejected with that very error, and
  the write of \<^verbatim>\<open>failed\<close> followed it.
\<close>

theorem analyzePR_failure:
  fixes deps :: WorkflowDependencies and p :: PRAnalysisParams and s :: orchestrator
  defines "wid \<equiv> pr_workflowId p"
  defines "h1 \<equiv> trace s @
             [Set wid \<lparr> wf_id = wid, wf_type = pr, wf_status = ''analyzing'',
                        lastUpdated = now deps (trace s), services = Map.empty \<rparr>,
              Call (GetPRDetails (owner p) (repo p) (pull_number p))]"
  defines "h2 \<equiv> h1 @ [Call (GetRepositoryStats (owner p) (repo p))]"
  defines "h3 \<equiv> \<lambda>d. h2 @ [Call (AnalyzePullRequest d
                         (case getRepositoryStats (github deps) h2 of
                            Inl x \<Rightarrow> [] | Inr contributors \<Rightarrow> contributors))]"
  defines "failed \<equiv> \<lambda>h. \<lparr> wf_id = wid, wf_type = pr, wf_status = ''failed'',
                            lastUpdated = now deps h, services = Map.empty \<rparr>"
  assumes "analyzePR deps p s = (r, s')"
  shows "(\<forall>e. getPRDetails (github deps) h1 = Inl e \<longrightarrow>
            r = Inl e \<and> trace s' = h1 @ [Set wid (failed h1)]
            \<and> workflowState s' = (workflowState s)(wid \<mapsto> failed h1))
       \<and> (\<forall>d e. getPRDetails (github deps) h1 = Inr d
                 \<and> ai_analyzePullRequest (ai deps) (h3 d) = Inl e \<longrightarrow>
            r = Inl e \<and> trace s' = h3 d @ [Set wid (failed (h3 d))]
            \<and> workflowState s' = (workflowState s)(wid \<mapsto> failed (h3 d)))
       \<and> (\<forall>d a. getPRDetails (github deps) h1 = Inr d
                 \<and> ai_analyzePullRequest (ai deps) (h3 d) = Inr a \<longrightarrow>
            (\<exists>res. r = Inr res))
       \<and> (\<forall>e. r = Inl e \<longrightarrow>
            (\<exists>written h. trace s' = h @ [Set (pr_workflowId p) written]
               \<and> workflowState s' (pr_workflowId p) = Some written
               \<and> wf_status written = ''failed''
               \<and> (getPRDetails (github deps) h = Inl e
                     \<and> last h = Call (GetPRDetails (owner p) (repo p) (pull_number p))
                   \<or> ai_analyzePullRequest (ai deps) h = Inl e
                     \<and> (\<exists>d m. last h = Call (AnalyzePullRequest d m)))))"
proof (intro conjI)
  show "\<forall>e. getPRDetails (github deps) h1 = Inl e \<longrightarrow>
            r = Inl e \<and> trace s' = h1 @ [Set wid (failed h1)]
            \<and> workflowState s' = (workflowState s)(wid \<mapsto> failed h1)"
    using assms(6)
    by (auto simp: analyzePR_def analyzePR_try_def Let_def wid_def h1_def failed_def)
  show "\<forall>d e. getPRDetails (github deps) h1 = Inr d
                 \<and> ai_analyzePullRequest (ai deps) (h3 d) = Inl e \<longrightarrow>
            r = Inl e \<and> trace s' = h3 d @ [Set wid (failed (h3 d))]
            \<and> workflowState s' = (workflowState s)(wid \<mapsto> failed (h3 d))"
    using assms(6)
    by (auto simp: analyzePR_def analyzePR_try_def getTeamMembers_def Let_def
          wid_def h1_def h2_def h3_def failed_def split: sum.splits)
  show "\<forall>d a. getPRDetails (github deps) h1 = Inr d
                 \<and> ai_analyzePullRequest (ai deps) (h3 d) = Inr a \<longrightarrow>
            (\<exists>res. r = Inr res)"
    using assms(6)
    by (auto simp: analyzePR_def analyzePR_try_def getTeamMembers_def Let_def
          wid_def h1_def h2_def h3_def split: sum.splits)
  show "\<forall>e. r = Inl e \<longrightarrow>
            (\<exists>written h. trace s' = h @ [Set (pr_workflowId p) written]
               \<and> workflowState s' (pr_workflowId p) = Some written
               \<and> wf_status written = ''failed''
               \<and> (getPRDetails (github deps) h = Inl e
                     \<and> last h = Call (GetPRDetails (owner p) (repo p) (pull_number p))
                   \<or> ai_analyzePullRequest (ai deps) h = Inl e
                     \<and> (\<exists>d m. last h = Call (AnalyzePullRequest d m))))"
  proof (intro allI impI)
    fix e assume "r = Inl e"
    with assms(6) obtain s0 where
      attempt: "analyzePR_try deps p s = (Inl e, s0)" and
      s': "s' = updateWorkflowStatus (pr_workflowId p)
               \<lparr> wf_id = pr_workflowId p, wf_type = pr, wf_status = ''failed'',
                 lastUpdated = now deps (trace s0), services = Map.empty \<rparr> s0"
      by (auto simp: analyzePR_def split: sum.splits prod.splits)
    from analyzePR_try_rejection [OF attempt] s'
    show "\<exists>written h. trace s' = h @ [Set (pr_workflowId p) written]
               \<and> workflowState s' (pr_workflowId p) = Some written
               \<and> wf_status written = ''failed''
               \<and> (getPRDetails (github deps) h = Inl e
                     \<and> last h = Call (GetPRDetails (owner p) (repo p) (pull_number p))
                   \<or> ai_analyzePullRequest (ai deps) h = Inl e
                     \<and> (\<exists>d m. last h = Call (AnalyzePullRequest d m)))"
      by (intro exI [of _ "\<lparr> wf_id = pr_workflowId p, wf_type = pr, wf_status = ''failed'',
               lastUpdated = now deps (trace s0), services = Map.empty \<rparr>"]
              exI [of _ "trace s0"]) simp
  qed
qed

text \<open>
  The fetch rejects: \<^verbatim>\<open>analyzePR\<close> throws the fetch's error after that one call, and
  the stored status is \<^verbatim>\<open>failed\<close>.
\<close>

theorem analyzePR_failure_witness:
  "fst (analyzePR fetch_fails pr_params start) = Inl fetch_error
   \<and> map_option wf_status
         (workflowState (snd (analyzePR fetch_fails pr_params start)) ''pr-o-r-1'')
       = Some ''failed''
   \<and> calls (trace (snd (analyzePR fetch_fails pr_params start))) = [GetPRDetails ''o'' ''r'' 1]"
proof -
  let ?r = "fst (analyzePR fetch_fails pr_params start)"
  let ?s = "snd (analyzePR fetch_fails pr_params start)"
  have fetch: "getPRDetails (github fetch_fails) h = Inl fetch_error" for h
    by (simp add: fetch_fails_def)
  from analyzePR_failure [where deps = fetch_fails and p = pr_params and s = start,
         OF surjective_pairing, THEN conjunct1] fetch
  obtain failed where
    "?r = Inl fetch_error"
    "trace ?s = (trace start @ [Set (pr_workflowId pr_params)
           \<lparr> wf_id = pr_workflowId pr_params, wf_type = pr, wf_status = ''analyzing'',
             lastUpdated = now fetch_fails (trace start), services = Map.empty \<rparr>,
         Call (GetPRDetails (owner pr_params) (repo pr_params) (pull_number pr_params))])
       @ [Set (pr_workflowId pr_params) failed]"
    "workflowState ?s = (workflowState start)(pr_workflowId pr_params \<mapsto> failed)"
    "wf_status failed = ''failed''"
    by fastforce
  then show ?thesis
    by (simp add: pr_params_id) (simp add: start_def pr_params_def)
qed

subsection \<open>The velocity trend\<close>

text \<open>
  C9.  The velocity trend of the history \<open>[10,10,10,10,20,20,20]\<close> (the last three average
  20, the earlier ones 10) is \<open>increasing\<close>, that of \<open>[20,20,20,20,10,10,10]\<close> is
  \<open>decreasing\<close>, and that of every history with fewer than two samples is \<open>stable\<close>.
\<close>

theorem velocity_trend_examples:
  assumes "length (historical v) < 2"
  shows "calculateVelocityTrend \<lparr> current = x, historical = [10, 10, 10, 10, 20, 20, 20] \<rparr>
           = ''increasing''
       \<and> calculateVelocityTrend \<lparr> current = y, historical = [20, 20, 20, 20, 10, 10, 10] \<rparr>
           = ''decreasing''
       \<and> calculateVelocityTrend v = ''stable''"
  using assms
  by (simp add: calculateVelocityTrend_def average_def times_def greater_def)

theorem velocity_trend_examples_witness:
  "length (historical \<lparr> current = 7, historical = [42] \<rparr>) < 2
   \<and> calculateVelocityTrend \<lparr> current = 7, historical = [42] \<rparr> = ''stable''
   \<and> calculateVelocityTrend \<lparr> current = 7, historical = [] \<rparr> = ''stable''"
  using velocity_trend_examples [of "\<lparr> current = 7, historical = [42] \<rparr>"]
        velocity_trend_examples [of "\<lparr> current = 7, historical = [] \<rparr>"]
  by simp


subsection \<open>The default platforms of a synchronisation\<close>

text \<open>
  C10.  \<^verbatim>\<open>syncWorkflowStatus\<close> on a stored workflow with \<^verbatim>\<open>platforms\<close> left out runs
  as it does for \<^verbatim>\<open>platforms: ['github', 'jira', 'slack']\<close>: the guarded push
  \<^verbatim>\<open>updateStatusOnPlatform\<close> is run for \<^verbatim>\<open>github\<close>, then for \<^verbatim>\<open>jira\<close>, then for
  \<^verbatim>\<open>slack\<close>, each on the record as the turns before it left it and whatever those
  turns' pushes answered, and then the record is stored and returned.
\<close>

theorem sync_default_platforms:
  assumes "workflowState s (workflow_id params) = Some existing"
      and "platforms params = None"
  shows "syncWorkflowStatus deps params s
           = syncWorkflowStatus deps (params\<lparr> platforms := Some [GitHub, Jira, Slack] \<rparr>) s
       \<and> (\<exists>st1 s1 st2 s2 st3 s3.
            syncPlatform deps (status_update params)
              (existing\<lparr> wf_status := status_update params,
                          lastUpdated := now deps (trace s) \<rparr>, s) GitHub = (st1, s1)
          \<and> s1 = snd (updateStatusOnPlatform deps GitHub
                        (existing\<lparr> wf_status := status_update params,
                                    lastUpdated := now deps (trace s) \<rparr>)
                        (status_update params) s)
          \<and> syncPlatform deps (status_update params) (st1, s1) Jira = (st2, s2)
          \<and> s2 = snd (updateStatusOnPlatform deps Jira st1 (status_update params) s1)
          \<and> syncPlatform deps (status_update params) (st2, s2) Slack = (st3, s3)
          \<and> s3 = snd (updateStatusOnPlatform deps Slack st2 (status_update params) s2)
          \<and> syncWorkflowStatus deps params s
              = (Inr st3, s3\<lparr> workflowState := (workflowState s3)(workflow_id params \<mapsto> st3),
                             trace := trace s3 @ [Set (workflow_id params) st3] \<rparr>))"
proof -
  let ?u = "status_update params"
  let ?upd = "existing\<lparr> wf_status := ?u, lastUpdated := now deps (trace s) \<rparr>"
  obtain st1 s1 where 1: "syncPlatform deps ?u (?upd, s) GitHub = (st1, s1)"
    by (cases "syncPlatform deps ?u (?upd, s) GitHub") blast
  obtain st2 s2 where 2: "syncPlatform deps ?u (st1, s1) Jira = (st2, s2)"
    by (cases "syncPlatform deps ?u (st1, s1) Jira") blast
  obtain st3 s3 where 3: "syncPlatform deps ?u (st2, s2) Slack = (st3, s3)"
    by (cases "syncPlatform deps ?u (st2, s2) Slack") blast
  have "syncWorkflowStatus deps params s
      = (Inr st3, s3\<lparr> workflowState := (workflowState s3)(workflow_id params \<mapsto> st3),
                       trace := trace s3 @ [Set (workflow_id params) st3] \<rparr>)"
    using assms 1 2 3 by (simp add: syncWorkflowStatus_def)
  moreover have "syncWorkflowStatus deps params s
      = syncWorkflowStatus deps (params\<lparr> platforms := Some [GitHub, Jira, Slack] \<rparr>) s"
    using assms by (simp add: syncWorkflowStatus_def)
  ultimately show ?thesis
    using 1 2 3 syncPlatform_state [OF 1] syncPlatform_state [OF 2] syncPlatform_state [OF 3]
    by blast
qed

text \<open>
  On a record that points to a pull request, an issue and a channel, the three pushes
  go out in that order.
\<close>

theorem sync_default_platforms_witness:
  "calls (trace (snd (syncWorkflowStatus all_succeed
     \<lparr> workflow_id = ''wf-1'', status_update = ''in-review'', platforms = None \<rparr> tracked)))
   = [UpdatePRStatus ''o'' ''r'' ''1'' ''pending'' ''IDWO: in-review'',
      AddCommentToIssue ''PROJ'' (StatusComment ''in-review''),
      SendNotification ''C123456'' (StatusNotification pr ''wf-1'' ''in-review'')]"
proof -
  have "syncWorkflowStatus all_succeed
          \<lparr> workflow_id = ''wf-1'', status_update = ''in-review'', platforms = None \<rparr> tracked
      = syncWorkflowStatus all_succeed
          \<lparr> workflow_id = ''wf-1'', status_update = ''in-review'',
            platforms = Some [GitHub, Jira, Slack] \<rparr> tracked"
    using sync_default_platforms [of tracked
        "\<lparr> workflow_id = ''wf-1'', status_update = ''in-review'', platforms = None \<rparr>"
        "the (workflowState tracked ''wf-1'')" all_succeed]
    by (simp add: tracked_def)
  then show ?thesis
    by (simp add: run_defs example_defs tracked_def)
qed

end
